theory Spec2Isabelle
  imports Complex_Main
begin

section \<open>Data model\<close>

text \<open>
  A shallow embedding of the rental back end (Express controllers over Mongoose models).
  An ObjectId is a natural number and a JavaScript \<open>Date\<close> is its time value, the
  number of milliseconds since the epoch, an integer.  A \<open>Number\<close> field is an
  exact rational: the rounding of doubles is not modelled.  A collection is the list of
  its documents in insertion order, and the database is the record of the six
  collections.  Only the fields that the operations below read or write are kept; the
  \<open>createdAt\<close>/\<open>updatedAt\<close> bookkeeping of \<open>timestamps: true\<close> is left out.
\<close>

type_synonym oid = nat
type_synonym date = int

record user =
  u_id :: oid
  u_deleted :: "date option"

record state =
  st_id :: oid
  st_name :: string

record city =
  ci_id :: oid
  ci_name :: string
  ci_stateId :: oid

record location =
  l_id :: oid
  l_phone_number :: string
  l_cityId :: oid
  l_userId :: oid
  l_deleted :: "date option"

record car =
  c_id :: oid
  c_locationId :: oid
  c_priceByDay :: rat

text \<open>
  \<open>totalPrice\<close> has no default: it is \<open>undefined\<close> (here \<open>None\<close>) until the
  first pre-save hook sets it.  \<open>status\<close> is a String path; its enum is a validator,
  so the stored value is whatever string was written.
\<close>

record reservation =
  r_id :: oid
  r_carId :: oid
  r_userId :: oid
  r_startDate :: date
  r_endDate :: date
  r_status :: string
  r_totalPrice :: "rat option"

record db =
  Users :: "user list"
  States :: "state list"
  Cities :: "city list"
  Locations :: "location list"
  Cars :: "car list"
  Reservations :: "reservation list"

section \<open>Soft-delete visibility (models/Location.js and models/User.js)\<close>

text \<open>
  A query holds its conditions and its options.  The condition on the \<open>deleted\<close>
  path is kept apart from the conditions on all other paths, because the pre-find hook
  inspects it: \<open>None\<close> when the filter does not mention \<open>deleted\<close>, otherwise one
  of \<open>{deleted: null}\<close>, \<open>{deleted: {$ne: null}}\<close> and \<open>{deleted: d}\<close> for a Date.
\<close>

datatype del_cond = IsNull | NeNull | EqDate date

record 'a query =
  q_conds :: "'a \<Rightarrow> bool"
  q_deleted :: "del_cond option"

fun del_matches :: "del_cond \<Rightarrow> date option \<Rightarrow> bool" where
  "del_matches IsNull v = (v = None)"
| "del_matches NeNull v = (v \<noteq> None)"
| "del_matches (EqDate t) v = (v = Some t)"

definition q_matches :: "('a \<Rightarrow> date option) \<Rightarrow> 'a query \<Rightarrow> 'a \<Rightarrow> bool" where
  "q_matches del q x =
     (q_conds q x \<and> (case q_deleted q of None \<Rightarrow> True | Some c \<Rightarrow> del_matches c (del x)))"

text \<open>
  JavaScript truthiness of \<open>this._conditions.deleted\<close>: \<open>undefined\<close> and \<open>null\<close>
  are falsy, a Date and an operator object are truthy.
\<close>

fun truthy :: "del_cond option \<Rightarrow> bool" where
  "truthy None = False"
| "truthy (Some IsNull) = False"
| "truthy (Some NeNull) = True"
| "truthy (Some (EqDate t)) = True"

text \<open>
  \<open>schema.pre(/^find/, function() { if (!this.getOptions().withDeleted &&
  !this._conditions.deleted) this.where({ deleted: null }) })\<close>, the same text in both
  schemas.  The pattern registers the hook for \<open>find\<close>, \<open>findOne\<close>,
  \<open>findOneAndUpdate\<close>, \<open>findOneAndDelete\<close> and \<open>findOneAndReplace\<close>, and for no
  \<open>deleteMany\<close>, \<open>deleteOne\<close> or \<open>countDocuments\<close>.
\<close>

definition pre_find :: "bool \<Rightarrow> 'a query \<Rightarrow> 'a query" where
  "pre_find withDeleted q =
     (if \<not> withDeleted \<and> \<not> truthy (q_deleted q) then q\<lparr>q_deleted := Some IsNull\<rparr> else q)"

definition soft_find :: "('a \<Rightarrow> date option) \<Rightarrow> bool \<Rightarrow> 'a query \<Rightarrow> 'a list \<Rightarrow> 'a list" where
  "soft_find del withDeleted q xs = filter (q_matches del (pre_find withDeleted q)) xs"

definition soft_findOne :: "('a \<Rightarrow> date option) \<Rightarrow> bool \<Rightarrow> 'a query \<Rightarrow> 'a list \<Rightarrow> 'a option" where
  "soft_findOne del withDeleted q xs = List.find (q_matches del (pre_find withDeleted q)) xs"

definition Location_find :: "bool \<Rightarrow> location query \<Rightarrow> db \<Rightarrow> location list" where
  "Location_find withDeleted q d = soft_find l_deleted withDeleted q (Locations d)"

definition Location_findOne :: "bool \<Rightarrow> location query \<Rightarrow> db \<Rightarrow> location option" where
  "Location_findOne withDeleted q d = soft_findOne l_deleted withDeleted q (Locations d)"

definition by_id :: "('a \<Rightarrow> oid) \<Rightarrow> oid \<Rightarrow> 'a query" where
  "by_id ident i = \<lparr>q_conds = (\<lambda>x. ident x = i), q_deleted = None\<rparr>"

text \<open>\<open>Model.findById(id)\<close> is \<open>findOne({ _id: id })\<close>; the options are a parameter
  because a caller may chain \<open>.setOptions({ withDeleted: true })\<close>.\<close>

definition Location_findById :: "bool \<Rightarrow> oid \<Rightarrow> db \<Rightarrow> location option" where
  "Location_findById withDeleted i d = Location_findOne withDeleted (by_id l_id i) d"

definition User_find :: "bool \<Rightarrow> user query \<Rightarrow> db \<Rightarrow> user list" where
  "User_find withDeleted q d = soft_find u_deleted withDeleted q (Users d)"

definition User_findById :: "bool \<Rightarrow> oid \<Rightarrow> db \<Rightarrow> user option" where
  "User_findById withDeleted i d = soft_findOne u_deleted withDeleted (by_id u_id i) (Users d)"

text \<open>
  \<open>getLocations\<close> (controllers/locationController.js): the query parameters
  \<open>cityId\<close>, \<open>userId\<close> and \<open>deleted\<close> are optional; the route admits
  \<open>'true'\<close> and \<open>'false'\<close> for \<open>deleted\<close>, any other string leaves the filter
  alone.  The \<open>populate\<close> and \<open>sort\<close> of the response are not modelled.
\<close>

definition getLocations_query :: "oid option \<Rightarrow> oid option \<Rightarrow> string option \<Rightarrow> location query" where
  "getLocations_query cityId userId deleted =
     \<lparr>q_conds = (\<lambda>l. (case cityId of None \<Rightarrow> True | Some c \<Rightarrow> l_cityId l = c) \<and>
                      (case userId of None \<Rightarrow> True | Some u \<Rightarrow> l_userId l = u)),
      q_deleted = (if deleted = Some ''true'' then Some NeNull
                   else if deleted = Some ''false'' then Some IsNull else None)\<rparr>"

definition getLocations :: "oid option \<Rightarrow> oid option \<Rightarrow> string option \<Rightarrow> db \<Rightarrow> location list" where
  "getLocations cityId userId deleted d =
     Location_find (deleted = Some ''true'') (getLocations_query cityId userId deleted) d"

definition getLocationById :: "oid \<Rightarrow> db \<Rightarrow> nat \<times> location option" where
  "getLocationById i d =
     (case Location_findById False i d of None \<Rightarrow> (404, None) | Some l \<Rightarrow> (200, Some l))"

text \<open>An update or a delete of one document acts on the first document that matches.\<close>

fun update_first :: "('a \<Rightarrow> bool) \<Rightarrow> ('a \<Rightarrow> 'a) \<Rightarrow> 'a list \<Rightarrow> 'a list" where
  "update_first p f [] = []"
| "update_first p f (x # xs) = (if p x then f x # xs else x # update_first p f xs)"

fun delete_first :: "('a \<Rightarrow> bool) \<Rightarrow> 'a list \<Rightarrow> 'a list" where
  "delete_first p [] = []"
| "delete_first p (x # xs) = (if p x then xs else x # delete_first p xs)"

text \<open>\<open>softDeleteLocation\<close>: \<open>findByIdAndUpdate(id, { deleted: new Date() })\<close>; the
  pre-find hook runs for \<open>findOneAndUpdate\<close> too, so a location that is already
  soft-deleted is not found.\<close>

definition softDeleteLocation :: "date \<Rightarrow> oid \<Rightarrow> db \<Rightarrow> (nat \<times> location option) \<times> db" where
  "softDeleteLocation now i d =
     (let q = pre_find False (by_id l_id i) in
      case List.find (q_matches l_deleted q) (Locations d) of
        None \<Rightarrow> ((404, None), d)
      | Some l \<Rightarrow> ((200, Some (l\<lparr>l_deleted := Some now\<rparr>)),
                   d\<lparr>Locations := update_first (q_matches l_deleted q)
                                     (\<lambda>x. x\<lparr>l_deleted := Some now\<rparr>) (Locations d)\<rparr>))"

section \<open>Reservation scheduler (models/Reservation.js, controllers/reservationController.js)\<close>

text \<open>
  Errors are values.  A Mongoose \<open>ValidationError\<close> carries the paths whose validators
  failed; \<open>AlreadyReserved\<close> is \<open>Error('Car already reserved for these dates')\<close>
  thrown by the overlap hook; \<open>CarIsNull\<close> is the TypeError of \<open>car.priceByDay\<close>
  on a car that \<open>findById\<close> did not find; \<open>DuplicateKey\<close> is the server's E11000
  on a unique index; \<open>DocumentNotFound\<close> is \<open>Error('Document not found')\<close> of the
  State hook; \<open>StateMissing\<close> is \<open>Error('Referenced state does not exist')\<close>.
\<close>

datatype path =
    P_carId | P_userId | P_startDate | P_endDate | P_status | P_name | P_stateId | P_phone_number

datatype error =
    ValidationError "path list"
  | AlreadyReserved
  | CarIsNull
  | DuplicateKey
  | DocumentNotFound
  | StateMissing

text \<open>\<open>handleErrors\<close> of the reservation controller: a message that includes
  \<open>'already reserved'\<close> gives 409, a ValidationError 400, anything else 500.\<close>

fun handleErrors :: "error \<Rightarrow> nat" where
  "handleErrors AlreadyReserved = 409"
| "handleErrors (ValidationError ps) = 400"
| "handleErrors e = 500"

definition Car_findById :: "oid \<Rightarrow> db \<Rightarrow> car option" where
  "Car_findById i d = List.find (\<lambda>c. c_id c = i) (Cars d)"

text \<open>\<open>enum: ['pending', 'confirmed', 'cancelled', 'completed']\<close> of the \<open>status\<close>
  path.\<close>

definition status_enum :: "string list" where
  "status_enum = [''pending'', ''confirmed'', ''cancelled'', ''completed'']"

text \<open>
  The schema's validators, run by \<open>save\<close> before the pre-save hooks, on a new document
  and on a stored one alike: the car exists, the user is found by \<open>User.findById\<close>
  (which the soft-delete hook of User filters), \<open>startDate > new Date()\<close>,
  \<open>endDate > this.startDate\<close>, and the status is one of the enum.  All validators run
  and the failing paths are collected in the order of the schema.
\<close>

definition Reservation_validate :: "date \<Rightarrow> db \<Rightarrow> reservation \<Rightarrow> path list" where
  "Reservation_validate now d r =
     (if Car_findById (r_carId r) d = None then [P_carId] else []) @
     (if User_findById False (r_userId r) d = None then [P_userId] else []) @
     (if r_startDate r > now then [] else [P_startDate]) @
     (if r_endDate r > r_startDate r then [] else [P_endDate]) @
     (if r_status r \<in> set status_enum then [] else [P_status])"

definition msPerDay :: int where
  "msPerDay = 1000 * 60 * 60 * 24"

text \<open>\<open>Math.ceil((this.endDate - this.startDate) / (1000 * 60 * 60 * 24))\<close>\<close>

definition days :: "date \<Rightarrow> date \<Rightarrow> int" where
  "days startDate endDate = \<lceil>(of_int (endDate - startDate) :: rat) / of_int msPerDay\<rceil>"

text \<open>First pre-save hook: \<open>this.totalPrice = days * car.priceByDay\<close>.\<close>

definition pre_save_price :: "db \<Rightarrow> reservation \<Rightarrow> error + reservation" where
  "pre_save_price d r =
     (case Car_findById (r_carId r) d of
        None \<Rightarrow> Inl CarIsNull
      | Some car \<Rightarrow>
          Inr (r\<lparr>r_totalPrice := Some (of_int (days (r_startDate r) (r_endDate r)) * c_priceByDay car)\<rparr>))"

text \<open>
  Second pre-save hook: \<open>Reservation.find({ carId: this.carId, $nor: [{ endDate: { $lte:
  this.startDate } }, { startDate: { $gte: this.endDate } }] })\<close>; a non-empty result
  throws.  The filter names neither \<open>status\<close> nor \<open>_id\<close>.
\<close>

definition overlapping :: "db \<Rightarrow> reservation \<Rightarrow> reservation list" where
  "overlapping d r =
     filter (\<lambda>x. r_carId x = r_carId r \<and>
                 \<not> (r_endDate x \<le> r_startDate r \<or> r_startDate x \<ge> r_endDate r))
       (Reservations d)"

definition pre_save_overlap :: "db \<Rightarrow> reservation \<Rightarrow> error + reservation" where
  "pre_save_overlap d r = (if length (overlapping d r) > 0 then Inl AlreadyReserved else Inr r)"

text \<open>
  \<open>doc.save()\<close>: validation, the two hooks in the order of their registration, then
  the write: an insert for a new document, an update of the stored document with the
  same \<open>_id\<close> otherwise.  Every failure leaves the database as it was.
\<close>

definition Reservation_save :: "date \<Rightarrow> bool \<Rightarrow> reservation \<Rightarrow> db \<Rightarrow> (error + reservation) \<times> db" where
  "Reservation_save now isNew r d =
     (case Reservation_validate now d r of
        p # ps \<Rightarrow> (Inl (ValidationError (p # ps)), d)
      | [] \<Rightarrow>
          (case pre_save_price d r of
             Inl e \<Rightarrow> (Inl e, d)
           | Inr r1 \<Rightarrow>
               (case pre_save_overlap d r1 of
                  Inl e \<Rightarrow> (Inl e, d)
                | Inr r2 \<Rightarrow>
                    (Inr r2,
                     d\<lparr>Reservations :=
                          (if isNew then Reservations d @ [r2]
                           else update_first (\<lambda>x. r_id x = r_id r2) (\<lambda>x. r2) (Reservations d))\<rparr>))))"

text \<open>A new document gets an ObjectId that no stored reservation has.\<close>

definition new_oid :: "oid list \<Rightarrow> oid" where
  "new_oid used = Suc (fold max used 0)"

text \<open>
  \<open>createReservation\<close>: \<open>new Reservation({ carId, userId, startDate, endDate })\<close> with
  the default status \<open>'pending'\<close>, then \<open>save()\<close>.  The result is the saved document
  or the error handed to \<open>handleErrors\<close>; \<open>now\<close> is the clock read by the validator.
\<close>

definition createReservation :: "date \<Rightarrow> oid \<Rightarrow> oid \<Rightarrow> date \<Rightarrow> date \<Rightarrow> db \<Rightarrow> (error + reservation) \<times> db" where
  "createReservation now carId userId startDate endDate d =
     Reservation_save now True
       \<lparr>r_id = new_oid (map r_id (Reservations d)), r_carId = carId, r_userId = userId,
        r_startDate = startDate, r_endDate = endDate, r_status = ''pending'',
        r_totalPrice = None\<rparr> d"

definition createReservation_status :: "(error + reservation) \<Rightarrow> nat" where
  "createReservation_status res = (case res of Inl e \<Rightarrow> handleErrors e | Inr r \<Rightarrow> 201)"

text \<open>
  \<open>updateReservationStatus\<close>: \<open>Reservation.findByIdAndUpdate(id, { status }, { new: true
  })\<close>.  The update is a query, so neither the validators (no \<open>runValidators\<close>) nor the
  pre-save hooks run: the enum of \<open>status\<close> is not checked here.  A request body
  without \<open>status\<close> gives an empty update.
\<close>

definition Reservation_findByIdAndUpdate_status ::
    "oid \<Rightarrow> string option \<Rightarrow> db \<Rightarrow> reservation option \<times> db" where
  "Reservation_findByIdAndUpdate_status i status d =
     (let upd = (\<lambda>r. case status of None \<Rightarrow> r | Some s \<Rightarrow> r\<lparr>r_status := s\<rparr>) in
      case List.find (\<lambda>r. r_id r = i) (Reservations d) of
        None \<Rightarrow> (None, d)
      | Some r \<Rightarrow> (Some (upd r),
                   d\<lparr>Reservations := update_first (\<lambda>r. r_id r = i) upd (Reservations d)\<rparr>))"

definition updateReservationStatus :: "oid \<Rightarrow> string option \<Rightarrow> db \<Rightarrow> (nat \<times> reservation option) \<times> db" where
  "updateReservationStatus i status d =
     (case Reservation_findByIdAndUpdate_status i status d of
        (None, d') \<Rightarrow> ((404, None), d')
      | (Some r, d') \<Rightarrow> ((200, Some r), d'))"

text \<open>
  \<open>updateCar\<close> (controllers/carController.js): \<open>Car.findByIdAndUpdate(id, updates, {
  runValidators: true })\<close> after a check of a new \<open>locationId\<close>.  Of the updates only
  \<open>locationId\<close> and \<open>priceByDay\<close> are modelled; the validator of \<open>priceByDay\<close> is
  \<open>min: 1\<close>.
\<close>

definition updateCar :: "oid \<Rightarrow> oid option \<Rightarrow> rat option \<Rightarrow> db \<Rightarrow> nat \<times> db" where
  "updateCar i locationId priceByDay d =
     (if (case locationId of None \<Rightarrow> False | Some l \<Rightarrow> Location_findById False l d = None)
      then (400, d)
      else if (case priceByDay of None \<Rightarrow> False | Some p \<Rightarrow> p < 1) then (400, d)
      else (case Car_findById i d of
              None \<Rightarrow> (404, d)
            | Some c \<Rightarrow>
                (200, d\<lparr>Cars := update_first (\<lambda>c. c_id c = i)
                     (\<lambda>c. c\<lparr>c_locationId := (case locationId of None \<Rightarrow> c_locationId c | Some l \<Rightarrow> l),
                            c_priceByDay := (case priceByDay of None \<Rightarrow> c_priceByDay c | Some p \<Rightarrow> p)\<rparr>)
                     (Cars d)\<rparr>)))"

section \<open>Cascade deletion (the delete hooks of the models)\<close>

text \<open>
  Query middleware runs for the operation it is registered for and for no other.
  \<open>Reservation\<close> has no delete hook.  \<open>carSchema.pre('deleteMany')\<close> reads the cars
  that match the filter with \<open>this.model.find(this.getFilter())\<close> and deletes the
  reservations whose \<open>carId\<close> is among their ids; then the cars are deleted.
\<close>

definition Reservation_deleteMany :: "(reservation \<Rightarrow> bool) \<Rightarrow> db \<Rightarrow> db" where
  "Reservation_deleteMany p d = d\<lparr>Reservations := filter (\<lambda>r. \<not> p r) (Reservations d)\<rparr>"

definition Car_deleteMany :: "(car \<Rightarrow> bool) \<Rightarrow> db \<Rightarrow> db" where
  "Car_deleteMany p d =
     (let cars = filter p (Cars d);
          d1 = Reservation_deleteMany (\<lambda>r. r_carId r \<in> set (map c_id cars)) d
      in d1\<lparr>Cars := filter (\<lambda>c. \<not> p c) (Cars d1)\<rparr>)"

text \<open>
  \<open>locationSchema.pre('deleteMany')\<close>: \<open>const locations = await
  this.model.find(this.getFilter())\<close> is a \<open>find\<close> on Location, so the pre-find hook
  of the same schema runs on it, with no options set; then \<open>Car.deleteMany({ locationId:
  { $in: locations.map(l => l._id) } })\<close>.  The \<open>deleteMany\<close> itself is not a find:
  it removes every location that matches the filter.
\<close>

definition Location_deleteMany :: "location query \<Rightarrow> db \<Rightarrow> db" where
  "Location_deleteMany q d =
     (let locations = Location_find False q d;
          d1 = Car_deleteMany (\<lambda>c. c_locationId c \<in> set (map l_id locations)) d
      in d1\<lparr>Locations := filter (\<lambda>l. \<not> q_matches l_deleted q l) (Locations d1)\<rparr>)"

text \<open>\<open>citySchema.pre('deleteMany')\<close>: the cities that match, then
  \<open>Location.deleteMany({ cityId: { $in: cities.map(c => c._id) } })\<close>.\<close>

definition City_deleteMany :: "(city \<Rightarrow> bool) \<Rightarrow> db \<Rightarrow> db" where
  "City_deleteMany p d =
     (let cities = filter p (Cities d);
          d1 = Location_deleteMany
                 \<lparr>q_conds = (\<lambda>l. l_cityId l \<in> set (map ci_id cities)), q_deleted = None\<rparr> d
      in d1\<lparr>Cities := filter (\<lambda>c. \<not> p c) (Cities d1)\<rparr>)"

text \<open>
  \<open>State.findByIdAndDelete(id)\<close> runs \<open>stateSchema.pre('findOneAndDelete')\<close>: the
  document is read first, a missing one is \<open>next(new Error('Document not found'))\<close>;
  otherwise \<open>City.deleteMany({ stateId: doc._id })\<close>, and then the state is removed.
  \<open>deleteState\<close> answers 204, 404 for a null result, and 500 through its
  \<open>handleErrors\<close> for the hook's error.
\<close>

definition State_findByIdAndDelete :: "oid \<Rightarrow> db \<Rightarrow> (error + state option) \<times> db" where
  "State_findByIdAndDelete i d =
     (case List.find (\<lambda>s. st_id s = i) (States d) of
        None \<Rightarrow> (Inl DocumentNotFound, d)
      | Some doc \<Rightarrow>
          (let d1 = City_deleteMany (\<lambda>c. ci_stateId c = st_id doc) d
           in (Inr (List.find (\<lambda>s. st_id s = i) (States d1)),
               d1\<lparr>States := delete_first (\<lambda>s. st_id s = i) (States d1)\<rparr>)))"

definition deleteState :: "oid \<Rightarrow> db \<Rightarrow> nat \<times> db" where
  "deleteState i d =
     (case State_findByIdAndDelete i d of
        (Inl e, d') \<Rightarrow> (500, d')
      | (Inr None, d') \<Rightarrow> (404, d')
      | (Inr (Some s), d') \<Rightarrow> (204, d'))"

text \<open>
  \<open>deleteLocation\<close>: \<open>Location.findByIdAndDelete(req.params.id)\<close>, a
  \<open>findOneAndDelete\<close> query.  Of the hooks of the Location schema only the pre-find
  hook is registered for it; \<open>pre('deleteOne', { document: true })\<close> is document
  middleware of \<open>doc.deleteOne()\<close> and \<open>pre('deleteMany')\<close> belongs to \<open>deleteMany\<close>.
\<close>

definition Location_findByIdAndDelete :: "oid \<Rightarrow> db \<Rightarrow> location option \<times> db" where
  "Location_findByIdAndDelete i d =
     (let q = pre_find False (by_id l_id i) in
      case List.find (q_matches l_deleted q) (Locations d) of
        None \<Rightarrow> (None, d)
      | Some l \<Rightarrow> (Some l, d\<lparr>Locations := delete_first (q_matches l_deleted q) (Locations d)\<rparr>))"

definition deleteLocation :: "oid \<Rightarrow> db \<Rightarrow> nat \<times> db" where
  "deleteLocation i d =
     (case Location_findByIdAndDelete i d of
        (None, d') \<Rightarrow> (404, d')
      | (Some l, d') \<Rightarrow> (204, d'))"

text \<open>
  The document path \<open>location.deleteOne()\<close>, which no controller calls:
  \<open>locationSchema.pre('deleteOne', { document: true })\<close> runs \<open>Car.deleteMany({
  locationId: this._id })\<close>, then the document is deleted by its \<open>_id\<close>.
\<close>

definition Location_deleteOne :: "location \<Rightarrow> db \<Rightarrow> db" where
  "Location_deleteOne l d =
     (let d1 = Car_deleteMany (\<lambda>c. c_locationId c = l_id l) d
      in d1\<lparr>Locations := delete_first (\<lambda>x. l_id x = l_id l) (Locations d1)\<rparr>)"

text \<open>
  What lies beneath a state, read in the database before the deletion: the cities of the
  state, the locations of those cities, the cars of those locations and the reservations
  of those cars.
\<close>

definition cities_of :: "db \<Rightarrow> oid \<Rightarrow> oid list" where
  "cities_of d sid = map ci_id (filter (\<lambda>c. ci_stateId c = sid) (Cities d))"

definition locations_of :: "db \<Rightarrow> oid \<Rightarrow> oid list" where
  "locations_of d sid = map l_id (filter (\<lambda>l. l_cityId l \<in> set (cities_of d sid)) (Locations d))"

definition cars_of :: "db \<Rightarrow> oid \<Rightarrow> oid list" where
  "cars_of d sid = map c_id (filter (\<lambda>c. c_locationId c \<in> set (locations_of d sid)) (Cars d))"

definition reservations_of :: "db \<Rightarrow> oid \<Rightarrow> oid list" where
  "reservations_of d sid = map r_id (filter (\<lambda>r. r_carId r \<in> set (cars_of d sid)) (Reservations d))"

section \<open>Normalisation and uniqueness (models/City.js, models/State.js, models/Location.js)\<close>

text \<open>
  Strings are lists of ASCII characters.  \<open>\s\<close> is tab, line feed, vertical tab, form
  feed, carriage return and space; \<open>\d\<close> is a decimal digit; \<open>\w\<close> is a letter, a
  digit or the underscore.
\<close>

definition lower_letters :: string where
  "lower_letters = ''abcdefghijklmnopqrstuvwxyz''"

definition upper_letters :: string where
  "upper_letters = ''ABCDEFGHIJKLMNOPQRSTUVWXYZ''"

definition is_space :: "char \<Rightarrow> bool" where
  "is_space c = (c \<in> set [CHR 0x09, CHR 0x0A, CHR 0x0B, CHR 0x0C, CHR 0x0D, CHR '' ''])"

definition is_digit :: "char \<Rightarrow> bool" where
  "is_digit c = (c \<in> set ''0123456789'')"

definition is_word :: "char \<Rightarrow> bool" where
  "is_word c = (c \<in> set lower_letters \<or> c \<in> set upper_letters \<or> is_digit c \<or> c = CHR ''_'')"

definition toUpperCase :: "char \<Rightarrow> char" where
  "toUpperCase c = (case map_of (zip lower_letters upper_letters) c of None \<Rightarrow> c | Some u \<Rightarrow> u)"

definition toLowerCase :: "char \<Rightarrow> char" where
  "toLowerCase c = (case map_of (zip upper_letters lower_letters) c of None \<Rightarrow> c | Some l \<Rightarrow> l)"

text \<open>The callback of the setter:
  \<open>txt => txt.charAt(0).toUpperCase() + txt.substr(1).toLowerCase()\<close>.\<close>

fun capitalize :: "string \<Rightarrow> string" where
  "capitalize [] = []"
| "capitalize (c # cs) = toUpperCase c # map toLowerCase cs"

text \<open>
  \<open>value.replace(/\w\S*/g, f)\<close>: scanning from the left, the next match starts at the
  next word character and takes every character up to the next whitespace; the match is
  replaced by \<open>f\<close> of it and the scan goes on behind it.
\<close>

function replace_w_S :: "(string \<Rightarrow> string) \<Rightarrow> string \<Rightarrow> string" where
  "replace_w_S f [] = []"
| "replace_w_S f (c # cs) =
     (if is_word c
      then f (c # takeWhile (\<lambda>x. \<not> is_space x) cs) @ replace_w_S f (dropWhile (\<lambda>x. \<not> is_space x) cs)
      else c # replace_w_S f cs)"
  by pat_completeness auto
termination
  by (relation "measure (\<lambda>(f, s). length s)") (auto simp: le_imp_less_Suc length_dropWhile_le)

text \<open>\<open>String.prototype.trim\<close>: the whitespace at the start and at the end is removed.\<close>

definition trimStart :: "string \<Rightarrow> string" where
  "trimStart s = dropWhile is_space s"

definition trimEnd :: "string \<Rightarrow> string" where
  "trimEnd s = rev (dropWhile is_space (rev s))"

definition trim :: "string \<Rightarrow> string" where
  "trim s = trimEnd (trimStart s)"

text \<open>
  The \<open>name\<close> path of City and of State: \<open>trim: true\<close> and the custom \<open>set\<close>.
  Mongoose applies the setters of a path last-declared first, so the custom setter runs
  before the trim.
\<close>

definition name_set :: "string \<Rightarrow> string" where
  "name_set v = trim (replace_w_S capitalize v)"

text \<open>
  \<open>createCity\<close>: the state must exist (400 otherwise); \<open>new City({ name, stateId })\<close>
  applies the setters; \<open>save()\<close> validates (\<open>minlength 2\<close>, \<open>maxlength 100\<close>, the state
  reference), runs the pre-save hook (the state exists) and inserts; the unique index
  \<open>{ stateId: 1, name: 1 }\<close> refuses a second document with the same pair with the
  duplicate-key error 11000, which \<open>handleErrors\<close> of the city controller answers with
  409.
\<close>

definition State_exists :: "oid \<Rightarrow> db \<Rightarrow> bool" where
  "State_exists i d = (List.find (\<lambda>s. st_id s = i) (States d) \<noteq> None)"

definition City_validate :: "db \<Rightarrow> city \<Rightarrow> path list" where
  "City_validate d c =
     (if length (ci_name c) < 2 \<or> length (ci_name c) > 100 then [P_name] else []) @
     (if State_exists (ci_stateId c) d then [] else [P_stateId])"

definition City_save :: "city \<Rightarrow> db \<Rightarrow> (error + city) \<times> db" where
  "City_save c d =
     (case City_validate d c of
        p # ps \<Rightarrow> (Inl (ValidationError (p # ps)), d)
      | [] \<Rightarrow>
          if \<not> State_exists (ci_stateId c) d then (Inl StateMissing, d)
          else if list_ex (\<lambda>x. ci_stateId x = ci_stateId c \<and> ci_name x = ci_name c) (Cities d)
          then (Inl DuplicateKey, d)
          else (Inr c, d\<lparr>Cities := Cities d @ [c]\<rparr>))"

fun cityController_handleErrors :: "error \<Rightarrow> nat" where
  "cityController_handleErrors (ValidationError ps) = 400"
| "cityController_handleErrors DuplicateKey = 409"
| "cityController_handleErrors e = 500"

definition createCity :: "string \<Rightarrow> oid \<Rightarrow> db \<Rightarrow> (nat \<times> city option) \<times> db" where
  "createCity name stateId d =
     (if \<not> State_exists stateId d then ((400, None), d)
      else
        (case City_save \<lparr>ci_id = new_oid (map ci_id (Cities d)), ci_name = name_set name,
                          ci_stateId = stateId\<rparr> d of
           (Inl e, d') \<Rightarrow> ((cityController_handleErrors e, None), d')
         | (Inr c, d') \<Rightarrow> ((201, Some c), d')))"

text \<open>
  The \<open>phone_number\<close> path of Location: the setter \<open>v => v.replace(/[^\d+]/g, '')\<close>
  and the validator \<open>/^\+\d{7,15}$/.test(v)\<close>.
\<close>

definition phone_number_set :: "string \<Rightarrow> string" where
  "phone_number_set v = filter (\<lambda>c. is_digit c \<or> c = CHR ''+'') v"

definition phone_number_validator :: "string \<Rightarrow> bool" where
  "phone_number_validator v =
     (case v of
        [] \<Rightarrow> False
      | c # ds \<Rightarrow> c = CHR ''+'' \<and> list_all is_digit ds \<and> 7 \<le> length ds \<and> length ds \<le> 15)"

text \<open>
  The check of the locations route on the raw value, before the controller runs:
  \<open>body('phone_number').trim().matches(/^\+?[0-9\s\-()]{7,20}$/)\<close>, here on a value
  that is already trimmed.
\<close>

definition route_phone_number :: "string \<Rightarrow> bool" where
  "route_phone_number v =
     (let body = (case v of [] \<Rightarrow> [] | c # cs \<Rightarrow> if c = CHR ''+'' then cs else c # cs)
      in list_all (\<lambda>c. is_digit c \<or> is_space c \<or> c \<in> set ''-()'') body \<and>
         7 \<le> length body \<and> length body \<le> 20)"

text \<open>
  The rule of the specification for names, word for word: the value is cut at whitespace
  into tokens, and of each token the first character is uppercased and the remainder
  lowercased.  \<open>per_token f\<close> applies \<open>f\<close> to every maximal run of non-whitespace
  characters and keeps the whitespace.
\<close>

function per_token :: "(string \<Rightarrow> string) \<Rightarrow> string \<Rightarrow> string" where
  "per_token f [] = []"
| "per_token f (c # cs) =
     (if is_space c then c # per_token f cs
      else f (c # takeWhile (\<lambda>x. \<not> is_space x) cs) @ per_token f (dropWhile (\<lambda>x. \<not> is_space x) cs))"
  by pat_completeness auto
termination
  by (relation "measure (\<lambda>(f, s). length s)") (auto simp: le_imp_less_Suc length_dropWhile_le)

definition spec_name_normalize :: "string \<Rightarrow> string" where
  "spec_name_normalize v = per_token capitalize (trim v)"

text \<open>
  The same rule with "first letter" read as the first alphabetic character of the token:
  what stands before it is kept, the letter is uppercased and the remainder lowercased.
\<close>

definition is_letter :: "char \<Rightarrow> bool" where
  "is_letter c = (c \<in> set lower_letters \<or> c \<in> set upper_letters)"

definition spec_letter_title :: "string \<Rightarrow> string" where
  "spec_letter_title t =
     takeWhile (\<lambda>x. \<not> is_letter x) t @ capitalize (dropWhile (\<lambda>x. \<not> is_letter x) t)"

definition spec_name_normalize_first_letter :: "string \<Rightarrow> string" where
  "spec_name_normalize_first_letter v = per_token spec_letter_title (trim v)"

text \<open>
  What the setter does to a token: the characters before its first word character stay,
  that character is uppercased and the rest of the token lowercased.
\<close>

definition word_title :: "string \<Rightarrow> string" where
  "word_title t = takeWhile (\<lambda>x. \<not> is_word x) t @ capitalize (dropWhile (\<lambda>x. \<not> is_word x) t)"

section \<open>Example databases\<close>

text \<open>
  One user, two states, the city San Jose in the first state, one location in that city,
  one car at 100 a day at that location and one pending reservation of the car from
  time 10 to time 20.
\<close>

definition example_db :: db where
  "example_db =
     \<lparr>Users = [\<lparr>u_id = 1, u_deleted = None\<rparr>],
      States = [\<lparr>st_id = 1, st_name = ''California''\<rparr>, \<lparr>st_id = 2, st_name = ''Texas''\<rparr>],
      Cities = [\<lparr>ci_id = 1, ci_name = ''San Jose'', ci_stateId = 1\<rparr>],
      Locations = [\<lparr>l_id = 1, l_phone_number = ''+15551234567'', l_cityId = 1, l_userId = 1,
                    l_deleted = None\<rparr>],
      Cars = [\<lparr>c_id = 1, c_locationId = 1, c_priceByDay = 100\<rparr>],
      Reservations = [\<lparr>r_id = 1, r_carId = 1, r_userId = 1, r_startDate = 10, r_endDate = 20,
                       r_status = ''pending'', r_totalPrice = Some 100\<rparr>]\<rparr>"

text \<open>The same with the reservation cancelled.\<close>

definition cancelled_db :: db where
  "cancelled_db =
     example_db\<lparr>Reservations :=
       [\<lparr>r_id = 1, r_carId = 1, r_userId = 1, r_startDate = 10, r_endDate = 20,
         r_status = ''cancelled'', r_totalPrice = Some 100\<rparr>]\<rparr>"

text \<open>A completed and a pending reservation of the car, whose price has since changed.\<close>

definition lifecycle_db :: db where
  "lifecycle_db =
     example_db\<lparr>Cars := [\<lparr>c_id = 1, c_locationId = 1, c_priceByDay = 250\<rparr>],
       Reservations :=
       [\<lparr>r_id = 1, r_carId = 1, r_userId = 1, r_startDate = 10, r_endDate = 20,
         r_status = ''completed'', r_totalPrice = Some 100\<rparr>,
        \<lparr>r_id = 2, r_carId = 1, r_userId = 1, r_startDate = 30, r_endDate = 40,
         r_status = ''pending'', r_totalPrice = Some 100\<rparr>]\<rparr>"

text \<open>The example with its location soft-deleted at time 5.\<close>

definition soft_deleted_db :: db where
  "soft_deleted_db =
     example_db\<lparr>Locations :=
       [\<lparr>l_id = 1, l_phone_number = ''+15551234567'', l_cityId = 1, l_userId = 1,
         l_deleted = Some 5\<rparr>]\<rparr>"

section \<open>Auxiliary facts\<close>

lemma days_div: "days s e = - ((s - e) div 86400000)"
proof -
  have "days s e = \<lceil>(of_int (e - s) :: rat) / of_int 86400000\<rceil>"
    by (simp add: days_def msPerDay_def)
  also have "\<dots> = - (- (e - s) div 86400000)"
    by (rule ceiling_divide_eq_div)
  finally show ?thesis by simp
qed

lemma find_update_first:
  "(\<And>x. p x \<Longrightarrow> p (f x)) \<Longrightarrow> List.find p (update_first p f xs) = map_option f (List.find p xs)"
  by (induction xs) auto

lemma map_update_first:
  "(\<And>x. g (f x) = g x) \<Longrightarrow> map g (update_first p f xs) = map g xs"
  by (induction xs) auto

lemma nth_update_first:
  "k < length xs \<Longrightarrow> \<not> p (xs ! k) \<Longrightarrow> update_first p f xs ! k = xs ! k"
  by (induction xs arbitrary: k) (auto simp: nth_Cons split: nat.splits)

lemma update_first_none: "List.find p xs = None \<Longrightarrow> update_first p f xs = xs"
  by (induction xs) (auto split: if_splits)

lemma updateReservationStatus_db:
  "snd (updateReservationStatus i st d) =
     d\<lparr>Reservations := update_first (\<lambda>r. r_id r = i)
          (\<lambda>r. case st of None \<Rightarrow> r | Some s \<Rightarrow> r\<lparr>r_status := s\<rparr>) (Reservations d)\<rparr>"
  by (auto simp: updateReservationStatus_def Reservation_findByIdAndUpdate_status_def
      update_first_none split: option.splits)

lemma overlapping_nonempty:
  "(overlapping d r \<noteq> []) =
     (\<exists>x\<in>set (Reservations d). r_carId x = r_carId r \<and> r_startDate r < r_endDate x \<and>
        r_startDate x < r_endDate r)"
  by (auto simp: overlapping_def filter_empty_conv)

lemma example_refs:
  "Car_findById 1 (example_db\<lparr>Reservations := rs\<rparr>) =
     Some \<lparr>c_id = 1, c_locationId = 1, c_priceByDay = 100\<rparr>"
  "User_findById False 1 (example_db\<lparr>Reservations := rs\<rparr>) = Some \<lparr>u_id = 1, u_deleted = None\<rparr>"
  by (simp_all add: example_db_def Car_findById_def User_findById_def soft_findOne_def
      pre_find_def by_id_def q_matches_def)

lemma soft_rule:
  "q_matches del (pre_find wd q) =
     (\<lambda>x. q_matches del q x \<and> (wd \<or> q_deleted q \<noteq> None \<or> del x = None))"
  by (cases "q_deleted q" rule: truthy.cases) (auto simp: pre_find_def q_matches_def fun_eq_iff)

section \<open>The reservation scheduler\<close>

text \<open>
  Claim C1, as the code has it.  \<open>createReservation\<close> fails with the error "Car already
  reserved for these dates", the only failure answered 409, exactly when the request passes the validators (the car
  exists, the user is found, the start lies in the future and the end after the start)
  and its half-open interval overlaps that of some stored reservation of the same car,
  whatever the status of that reservation: \<open>s < e'\<close> and \<open>s' < e\<close>.  Whenever it fails
  the database is unchanged.  A valid request that no stored reservation of the car
  overlaps, one that only touches them included, is accepted and appended.
\<close>

theorem createReservation_conflict_iff_overlap:
  "(fst (createReservation now carId userId s e d) = Inl AlreadyReserved \<longleftrightarrow>
      (Car_findById carId d \<noteq> None \<and> User_findById False userId d \<noteq> None \<and> now < s \<and> s < e \<and>
       (\<exists>x \<in> set (Reservations d). r_carId x = carId \<and> s < r_endDate x \<and> r_startDate x < e)))
   \<and> (createReservation_status (fst (createReservation now carId userId s e d)) = 409 \<longleftrightarrow>
        fst (createReservation now carId userId s e d) = Inl AlreadyReserved)
   \<and> (\<forall>err. fst (createReservation now carId userId s e d) = Inl err \<longrightarrow>
         snd (createReservation now carId userId s e d) = d)
   \<and> (Car_findById carId d \<noteq> None \<and> User_findById False userId d \<noteq> None \<and> now < s \<and> s < e \<and>
       (\<forall>x \<in> set (Reservations d). r_carId x = carId \<longrightarrow> r_endDate x \<le> s \<or> e \<le> r_startDate x) \<longrightarrow>
       (\<exists>r. createReservation now carId userId s e d =
             (Inr r, d\<lparr>Reservations := Reservations d @ [r]\<rparr>)))"
proof (intro conjI allI impI)
  show "fst (createReservation now carId userId s e d) = Inl AlreadyReserved \<longleftrightarrow>
      (Car_findById carId d \<noteq> None \<and> User_findById False userId d \<noteq> None \<and> now < s \<and> s < e \<and>
       (\<exists>x \<in> set (Reservations d). r_carId x = carId \<and> s < r_endDate x \<and> r_startDate x < e))"
    by (auto simp: createReservation_def Reservation_save_def Reservation_validate_def
        status_enum_def pre_save_price_def pre_save_overlap_def overlapping_nonempty
        split: list.splits sum.splits option.splits if_splits)
next
  show "createReservation_status (fst (createReservation now carId userId s e d)) = 409 \<longleftrightarrow>
      fst (createReservation now carId userId s e d) = Inl AlreadyReserved"
  proof (cases "fst (createReservation now carId userId s e d)")
    case (Inl err)
    then show ?thesis by (cases err) (simp_all add: createReservation_status_def)
  next
    case (Inr r)
    then show ?thesis by (simp add: createReservation_status_def)
  qed
next
  fix err
  assume "fst (createReservation now carId userId s e d) = Inl err"
  then show "snd (createReservation now carId userId s e d) = d"
    by (auto simp: createReservation_def Reservation_save_def
        split: list.splits sum.splits option.splits if_splits)
next
  assume a: "Car_findById carId d \<noteq> None \<and> User_findById False userId d \<noteq> None \<and> now < s \<and> s < e \<and>
       (\<forall>x \<in> set (Reservations d). r_carId x = carId \<longrightarrow> r_endDate x \<le> s \<or> e \<le> r_startDate x)"
  then have "overlapping d
      \<lparr>r_id = new_oid (map r_id (Reservations d)), r_carId = carId, r_userId = userId,
       r_startDate = s, r_endDate = e, r_status = ''pending'',
       r_totalPrice = Some (of_int (days s e) * c_priceByDay (the (Car_findById carId d)))\<rparr> = []"
    by (auto simp: overlapping_def filter_empty_conv)
  with a show "\<exists>r. createReservation now carId userId s e d =
      (Inr r, d\<lparr>Reservations := Reservations d @ [r]\<rparr>)"
    by (auto simp: createReservation_def Reservation_save_def Reservation_validate_def
        status_enum_def pre_save_price_def pre_save_overlap_def)
qed

text \<open>
  On the example, at time 0: a request for the car from 12 to 15 overlaps the stored
  reservation from 10 to 20 and is refused, the database unchanged; a request from 20 to
  30 touches it and is accepted.
\<close>

theorem createReservation_conflict_iff_overlap_witness:
  "fst (createReservation 0 1 1 12 15 example_db) = Inl AlreadyReserved
   \<and> snd (createReservation 0 1 1 12 15 example_db) = example_db
   \<and> (\<exists>r. createReservation 0 1 1 20 30 example_db =
            (Inr r, example_db\<lparr>Reservations := Reservations example_db @ [r]\<rparr>))"
proof -
  have v: "Car_findById 1 example_db \<noteq> None" "User_findById False 1 example_db \<noteq> None"
    using example_refs [of "Reservations example_db"] by simp_all
  have c: "fst (createReservation 0 1 1 12 15 example_db) = Inl AlreadyReserved"
    using createReservation_conflict_iff_overlap [of 0 1 1 12 15 example_db] v
    by (simp add: example_db_def)
  have f: "snd (createReservation 0 1 1 12 15 example_db) = example_db"
    using createReservation_conflict_iff_overlap [of 0 1 1 12 15 example_db] c by blast
  have t: "\<exists>r. createReservation 0 1 1 20 30 example_db =
      (Inr r, example_db\<lparr>Reservations := Reservations example_db @ [r]\<rparr>)"
    using createReservation_conflict_iff_overlap [of 0 1 1 20 30 example_db] v
    by (simp add: example_db_def)
  from c f t show ?thesis by blast
qed

text \<open>
  Against C1 as stated: the only stored reservation of the car is cancelled, so no
  reservation that is not cancelled overlaps the request from 12 to 15, and the request is
  refused all the same.
\<close>

theorem createReservation_cancelled_counterexample:
  "fst (createReservation 0 1 1 12 15 cancelled_db) = Inl AlreadyReserved
   \<and> filter (\<lambda>x. r_carId x = 1 \<and> r_status x \<noteq> ''cancelled'' \<and> 12 < r_endDate x \<and> r_startDate x < 15)
        (Reservations cancelled_db) = []"
  by (simp add: cancelled_db_def example_db_def createReservation_def Reservation_save_def
      Reservation_validate_def status_enum_def pre_save_price_def pre_save_overlap_def
      overlapping_def Car_findById_def User_findById_def soft_findOne_def pre_find_def by_id_def
      q_matches_def new_oid_def)

text \<open>
  Claim C5.  An accepted reservation carries \<open>totalPrice = ceil((endDate - startDate) /
  86400000) * priceByDay\<close>, the price read from the car as it is stored when the
  reservation is created; at 100 a day, three days cost 300.  A later \<open>updateCar\<close>
  leaves every stored reservation as it is, and \<open>updateReservationStatus\<close> leaves every
  \<open>totalPrice\<close> as it is: no operation recomputes the price.
\<close>

theorem createReservation_totalPrice:
  "(fst (createReservation now carId userId s e d) = Inr r \<longrightarrow>
      (\<exists>car. Car_findById carId d = Some car \<and>
         r_totalPrice r = Some (of_int \<lceil>(of_int (e - s) :: rat) / 86400000\<rceil> * c_priceByDay car)))
   \<and> (fst (createReservation now carId userId s (s + 3 * 86400000) d) = Inr r \<and>
        Car_findById carId d = Some car \<and> c_priceByDay car = 100 \<longrightarrow> r_totalPrice r = Some 300)
   \<and> Reservations (snd (updateCar i locationId priceByDay d)) = Reservations d
   \<and> map r_totalPrice (Reservations (snd (updateReservationStatus i status d))) =
       map r_totalPrice (Reservations d)"
proof (intro conjI impI)
  assume "fst (createReservation now carId userId s e d) = Inr r"
  then show "\<exists>car. Car_findById carId d = Some car \<and>
         r_totalPrice r = Some (of_int \<lceil>(of_int (e - s) :: rat) / 86400000\<rceil> * c_priceByDay car)"
    by (auto simp: createReservation_def Reservation_save_def pre_save_price_def
        pre_save_overlap_def days_def msPerDay_def
        split: list.splits option.splits sum.splits if_splits)
next
  assume "fst (createReservation now carId userId s (s + 3 * 86400000) d) = Inr r \<and>
        Car_findById carId d = Some car \<and> c_priceByDay car = 100"
  then show "r_totalPrice r = Some 300"
    by (auto simp: createReservation_def Reservation_save_def pre_save_price_def
        pre_save_overlap_def days_div split: list.splits option.splits sum.splits if_splits)
next
  show "Reservations (snd (updateCar i locationId priceByDay d)) = Reservations d"
    by (simp add: updateCar_def split: option.splits)
next
  show "map r_totalPrice (Reservations (snd (updateReservationStatus i status d))) =
      map r_totalPrice (Reservations d)"
    by (simp add: updateReservationStatus_db map_update_first split: option.splits)
qed

text \<open>
  On the example, at time 0: three days from time 30 on are accepted at 300, and the
  price stays 300 after the car goes to 250 a day.
\<close>

theorem createReservation_totalPrice_witness:
  "(\<exists>r. fst (createReservation 0 1 1 30 (30 + 3 * 86400000) example_db) = Inr r \<and>
        r_totalPrice r = Some 300 \<and>
        map r_totalPrice (Reservations (snd (updateCar 1 None (Some 250)
          (snd (createReservation 0 1 1 30 (30 + 3 * 86400000) example_db))))) =
          [Some 100, Some 300])"
proof -
  let ?res = "createReservation 0 1 1 30 (30 + 3 * 86400000) example_db"
  have "\<exists>r. ?res = (Inr r, example_db\<lparr>Reservations := Reservations example_db @ [r]\<rparr>)"
    using example_refs [of "Reservations example_db"]
    by (simp add: createReservation_def Reservation_save_def Reservation_validate_def
        status_enum_def pre_save_price_def pre_save_overlap_def overlapping_def example_db_def)
  then obtain r where r: "?res = (Inr r, example_db\<lparr>Reservations := Reservations example_db @ [r]\<rparr>)"
    by blast
  have car: "Car_findById 1 example_db = Some \<lparr>c_id = 1, c_locationId = 1, c_priceByDay = 100\<rparr>"
    using example_refs(1) [of "Reservations example_db"] by simp
  have p: "r_totalPrice r = Some 300"
    using createReservation_totalPrice
      [of 0 1 1 30 _ example_db r "\<lparr>c_id = 1, c_locationId = 1, c_priceByDay = 100\<rparr>"] r car
    by simp
  have "Reservations (snd (updateCar 1 None (Some 250) (snd ?res))) = Reservations (snd ?res)"
    using createReservation_totalPrice [of _ _ _ _ _ "snd ?res" _ _ 1 None "Some 250"] by blast
  with r p have "map r_totalPrice (Reservations (snd (updateCar 1 None (Some 250) (snd ?res)))) =
      [Some 100, Some 300]"
    by (simp add: example_db_def)
  with r p show ?thesis by simp
qed

text \<open>
  Claim C9.  \<open>updateReservationStatus\<close> changes nothing but the status of the reservation
  it targets: the \<open>_id\<close>, \<open>carId\<close>, \<open>userId\<close>, \<open>startDate\<close>, \<open>endDate\<close> and
  \<open>totalPrice\<close> of every stored reservation are as before, every reservation with
  another id is as before, and so is every other collection.  Neither pre-save hook runs:
  a reservation that is found is answered 200 with its new status, whatever the cars'
  prices and whatever it overlaps; the answer does not depend on the cars.  An id that is
  not found is answered 404.
\<close>

theorem updateReservationStatus_only_status:
  "map (\<lambda>r. (r_id r, r_carId r, r_userId r, r_startDate r, r_endDate r, r_totalPrice r))
       (Reservations (snd (updateReservationStatus i status d))) =
   map (\<lambda>r. (r_id r, r_carId r, r_userId r, r_startDate r, r_endDate r, r_totalPrice r))
       (Reservations d)
   \<and> (\<forall>k < length (Reservations d). r_id (Reservations d ! k) \<noteq> i \<longrightarrow>
         Reservations (snd (updateReservationStatus i status d)) ! k = Reservations d ! k)
   \<and> snd (updateReservationStatus i status d) =
        d\<lparr>Reservations := Reservations (snd (updateReservationStatus i status d))\<rparr>
   \<and> (\<forall>r. List.find (\<lambda>r. r_id r = i) (Reservations d) = Some r \<longrightarrow>
         fst (updateReservationStatus i status d) =
           (200, Some (case status of None \<Rightarrow> r | Some s \<Rightarrow> r\<lparr>r_status := s\<rparr>)))
   \<and> (List.find (\<lambda>r. r_id r = i) (Reservations d) = None \<longrightarrow>
         updateReservationStatus i status d = ((404, None), d))
   \<and> fst (updateReservationStatus i status (d\<lparr>Cars := cs\<rparr>)) =
       fst (updateReservationStatus i status d)"
proof (intro conjI allI impI)
  show "map (\<lambda>r. (r_id r, r_carId r, r_userId r, r_startDate r, r_endDate r, r_totalPrice r))
       (Reservations (snd (updateReservationStatus i status d))) =
   map (\<lambda>r. (r_id r, r_carId r, r_userId r, r_startDate r, r_endDate r, r_totalPrice r))
       (Reservations d)"
    by (simp add: updateReservationStatus_db map_update_first split: option.splits)
next
  fix k
  assume "k < length (Reservations d)" "r_id (Reservations d ! k) \<noteq> i"
  then show "Reservations (snd (updateReservationStatus i status d)) ! k = Reservations d ! k"
    by (simp add: updateReservationStatus_db nth_update_first)
next
  show "snd (updateReservationStatus i status d) =
        d\<lparr>Reservations := Reservations (snd (updateReservationStatus i status d))\<rparr>"
    by (simp add: updateReservationStatus_db)
next
  fix r
  assume "List.find (\<lambda>r. r_id r = i) (Reservations d) = Some r"
  then show "fst (updateReservationStatus i status d) =
           (200, Some (case status of None \<Rightarrow> r | Some s \<Rightarrow> r\<lparr>r_status := s\<rparr>))"
    by (simp add: updateReservationStatus_def Reservation_findByIdAndUpdate_status_def)
next
  assume "List.find (\<lambda>r. r_id r = i) (Reservations d) = None"
  then show "updateReservationStatus i status d = ((404, None), d)"
    by (simp add: updateReservationStatus_def Reservation_findByIdAndUpdate_status_def)
next
  show "fst (updateReservationStatus i status (d\<lparr>Cars := cs\<rparr>)) =
       fst (updateReservationStatus i status d)"
    by (simp add: updateReservationStatus_def Reservation_findByIdAndUpdate_status_def
        split: option.splits)
qed

text \<open>
  The completed reservation of the example is confirmed: its price stays 100 although
  the car now costs 250 a day, and the second reservation is untouched.
\<close>

theorem updateReservationStatus_only_status_witness:
  "fst (updateReservationStatus 1 (Some ''confirmed'') lifecycle_db) =
     (200, Some \<lparr>r_id = 1, r_carId = 1, r_userId = 1, r_startDate = 10, r_endDate = 20,
                 r_status = ''confirmed'', r_totalPrice = Some 100\<rparr>)
   \<and> Reservations (snd (updateReservationStatus 1 (Some ''confirmed'') lifecycle_db)) ! 1 =
       Reservations lifecycle_db ! 1"
proof -
  have f: "List.find (\<lambda>r. r_id r = 1) (Reservations lifecycle_db) =
      Some \<lparr>r_id = 1, r_carId = 1, r_userId = 1, r_startDate = 10, r_endDate = 20,
            r_status = ''completed'', r_totalPrice = Some 100\<rparr>"
    by (simp add: lifecycle_db_def example_db_def)
  have k: "1 < length (Reservations lifecycle_db)" "r_id (Reservations lifecycle_db ! 1) \<noteq> 1"
    by (simp_all add: lifecycle_db_def example_db_def)
  show ?thesis
    using updateReservationStatus_only_status [of 1 "Some ''confirmed''" lifecycle_db] f k
    by simp
qed

text \<open>
  Claim C2, as the code has it.  \<open>updateReservationStatus\<close> checks no transition.  For
  a reservation that is found and whose status is one of the enum, every requested status
  of the enum is accepted (200) and stored: the four transitions that the specification
  allows, and every other transition between statuses of the enum as well, backward ones
  included.
\<close>

theorem updateReservationStatus_accepts_every_transition:
  "List.find (\<lambda>r. r_id r = i) (Reservations d) = Some r \<Longrightarrow>
   r_status r \<in> set status_enum \<Longrightarrow> s \<in> set status_enum \<Longrightarrow>
     fst (updateReservationStatus i (Some s) d) = (200, Some (r\<lparr>r_status := s\<rparr>))
     \<and> List.find (\<lambda>r. r_id r = i) (Reservations (snd (updateReservationStatus i (Some s) d))) =
         Some (r\<lparr>r_status := s\<rparr>)"
  by (simp add: updateReservationStatus_def Reservation_findByIdAndUpdate_status_def Let_def
      find_update_first)

text \<open>The legal transition pending to cancelled, on the second reservation.\<close>

theorem updateReservationStatus_accepts_every_transition_witness:
  "fst (updateReservationStatus 2 (Some ''cancelled'') lifecycle_db) =
     (200, Some \<lparr>r_id = 2, r_carId = 1, r_userId = 1, r_startDate = 30, r_endDate = 40,
                 r_status = ''cancelled'', r_totalPrice = Some 100\<rparr>)"
proof -
  have f: "List.find (\<lambda>r. r_id r = 2) (Reservations lifecycle_db) =
      Some \<lparr>r_id = 2, r_carId = 1, r_userId = 1, r_startDate = 30, r_endDate = 40,
            r_status = ''pending'', r_totalPrice = Some 100\<rparr>"
    by (simp add: lifecycle_db_def example_db_def)
  have e: "r_status \<lparr>r_id = 2, r_carId = 1, r_userId = 1, r_startDate = 30, r_endDate = 40,
            r_status = ''pending'', r_totalPrice = Some 100\<rparr> \<in> set status_enum"
      "''cancelled'' \<in> set status_enum"
    by (simp_all add: status_enum_def)
  show ?thesis
    using updateReservationStatus_accepts_every_transition [OF f e] by simp
qed

text \<open>
  Against C2 as stated: the first reservation is completed; the request to make it
  pending is answered 200 and the stored status is pending.
\<close>

theorem updateReservationStatus_backward_counterexample:
  "map r_status (Reservations lifecycle_db) = [''completed'', ''pending'']
   \<and> set [''completed'', ''pending''] \<subseteq> set status_enum
   \<and> fst (fst (updateReservationStatus 1 (Some ''pending'') lifecycle_db)) = 200
   \<and> map r_status (Reservations (snd (updateReservationStatus 1 (Some ''pending'') lifecycle_db))) =
       [''pending'', ''pending'']"
  by (simp add: lifecycle_db_def example_db_def updateReservationStatus_def
      Reservation_findByIdAndUpdate_status_def status_enum_def)

text \<open>
  Claim C10, as the code has it.  The overlap query of a stored reservation with a
  proper interval returns the reservation itself.  Saving a stored reservation again
  never succeeds and never writes.  The validators run first: when all of them pass (the
  car and the user are found, the start is still in the future, the end is after the
  start, the status is one of the enum) the overlap hook finds the reservation itself,
  since its filter does not exclude the document's own \<open>_id\<close>, and the save fails with
  "Car already reserved for these dates"; when one of them fails, the save fails with the
  ValidationError of the failing paths instead.
\<close>

theorem resave_fails:
  "r \<in> set (Reservations d) \<Longrightarrow>
     (r_startDate r < r_endDate r \<longrightarrow> r \<in> set (overlapping d r))
     \<and> (Car_findById (r_carId r) d \<noteq> None \<and> User_findById False (r_userId r) d \<noteq> None \<and>
      now < r_startDate r \<and> r_startDate r < r_endDate r \<and> r_status r \<in> set status_enum \<longrightarrow>
        Reservation_save now False r d = (Inl AlreadyReserved, d))
     \<and> (\<not> (Car_findById (r_carId r) d \<noteq> None \<and> User_findById False (r_userId r) d \<noteq> None \<and>
      now < r_startDate r \<and> r_startDate r < r_endDate r \<and> r_status r \<in> set status_enum) \<longrightarrow>
        Reservation_validate now d r \<noteq> [] \<and>
        Reservation_save now False r d =
          (Inl (ValidationError (Reservation_validate now d r)), d))
     \<and> (\<exists>e. Reservation_save now False r d = (Inl e, d))"
proof -
  assume r: "r \<in> set (Reservations d)"
  let ?valid = "Car_findById (r_carId r) d \<noteq> None \<and> User_findById False (r_userId r) d \<noteq> None \<and>
      now < r_startDate r \<and> r_startDate r < r_endDate r \<and> r_status r \<in> set status_enum"
  have self: "r_startDate r < r_endDate r \<longrightarrow> r \<in> set (overlapping d r)"
    using r by (simp add: overlapping_def)
  have ov: "r_startDate r < r_endDate r \<Longrightarrow> overlapping d (r\<lparr>r_totalPrice := t\<rparr>) \<noteq> []" for t
    using r by (auto simp: overlapping_nonempty)
  have v: "Reservation_validate now d r = [] \<longleftrightarrow> ?valid"
    by (auto simp: Reservation_validate_def)
  have a: "?valid \<longrightarrow> Reservation_save now False r d = (Inl AlreadyReserved, d)"
    using ov by (auto simp: Reservation_save_def Reservation_validate_def pre_save_price_def
        pre_save_overlap_def)
  have b: "\<not> ?valid \<longrightarrow> Reservation_validate now d r \<noteq> [] \<and>
        Reservation_save now False r d =
          (Inl (ValidationError (Reservation_validate now d r)), d)"
  proof
    assume "\<not> ?valid"
    with v have n: "Reservation_validate now d r \<noteq> []" by blast
    then obtain p ps where "Reservation_validate now d r = p # ps"
      by (cases "Reservation_validate now d r") auto
    with n show "Reservation_validate now d r \<noteq> [] \<and>
        Reservation_save now False r d =
          (Inl (ValidationError (Reservation_validate now d r)), d)"
      by (simp add: Reservation_save_def)
  qed
  from a b have c: "\<exists>e. Reservation_save now False r d = (Inl e, d)"
    by (cases ?valid) auto
  from self a b c show ?thesis by blast
qed

text \<open>At time 0 the stored reservation of the example, unchanged, is refused as already
  reserved.\<close>

theorem resave_fails_witness:
  "Reservation_save 0 False (hd (Reservations example_db)) example_db =
     (Inl AlreadyReserved, example_db)"
proof -
  have m: "hd (Reservations example_db) \<in> set (Reservations example_db)"
    by (simp add: example_db_def)
  have v: "Car_findById (r_carId (hd (Reservations example_db))) example_db \<noteq> None"
          "User_findById False (r_userId (hd (Reservations example_db))) example_db \<noteq> None"
          "0 < r_startDate (hd (Reservations example_db))"
          "r_startDate (hd (Reservations example_db)) < r_endDate (hd (Reservations example_db))"
          "r_status (hd (Reservations example_db)) \<in> set status_enum"
    by (simp_all add: example_db_def Car_findById_def User_findById_def soft_findOne_def
        pre_find_def by_id_def q_matches_def status_enum_def)
  show ?thesis using resave_fails [OF m, of 0] v by simp
qed

text \<open>
  Against C10 as stated: at time 15 the stored reservation has begun; saving it again,
  unchanged, fails with the ValidationError of \<open>startDate\<close> and not with the
  already-reserved error.
\<close>

theorem resave_past_counterexample:
  "hd (Reservations example_db) \<in> set (Reservations example_db)
   \<and> Reservation_save 15 False (hd (Reservations example_db)) example_db =
       (Inl (ValidationError [P_startDate]), example_db)"
  by (simp add: example_db_def Reservation_save_def Reservation_validate_def Car_findById_def
      User_findById_def soft_findOne_def pre_find_def by_id_def q_matches_def status_enum_def)

text \<open>
  A status outside the enum, once stored by \<open>updateReservationStatus\<close>, makes the next
  save of the reservation fail on the \<open>status\<close> path.
\<close>

lemma resave_status_outside_enum:
  "Reservation_save 0 False
     (hd (Reservations (snd (updateReservationStatus 1 (Some ''banana'') example_db))))
     (snd (updateReservationStatus 1 (Some ''banana'') example_db)) =
   (Inl (ValidationError [P_status]), snd (updateReservationStatus 1 (Some ''banana'') example_db))"
  by (simp add: example_db_def updateReservationStatus_def
      Reservation_findByIdAndUpdate_status_def Reservation_save_def Reservation_validate_def
      Car_findById_def User_findById_def soft_findOne_def pre_find_def by_id_def q_matches_def
      status_enum_def)

section \<open>Cascade deletion\<close>

text \<open>The delete hooks as equations on the collections.\<close>

lemma Car_deleteMany_eq:
  "Car_deleteMany p d =
     d\<lparr>Reservations :=
         filter (\<lambda>r. r_carId r \<notin> c_id ` {c \<in> set (Cars d). p c}) (Reservations d),
       Cars := filter (\<lambda>c. \<not> p c) (Cars d)\<rparr>"
  by (simp add: Car_deleteMany_def Reservation_deleteMany_def Let_def)

lemma Location_deleteMany_eq:
  "Location_deleteMany q d =
     d\<lparr>Reservations := filter (\<lambda>r. r_carId r \<notin> c_id ` {c \<in> set (Cars d).
            c_locationId c \<in> l_id ` {l \<in> set (Locations d). q_matches l_deleted q l \<and>
               (q_deleted q \<noteq> None \<or> l_deleted l = None)}}) (Reservations d),
       Cars := filter (\<lambda>c. c_locationId c \<notin> l_id ` {l \<in> set (Locations d).
               q_matches l_deleted q l \<and> (q_deleted q \<noteq> None \<or> l_deleted l = None)}) (Cars d),
       Locations := filter (\<lambda>l. \<not> q_matches l_deleted q l) (Locations d)\<rparr>"
  by (simp add: Location_deleteMany_def Car_deleteMany_eq Location_find_def soft_find_def
      soft_rule Let_def)

text \<open>
  What \<open>deleteState\<close> leaves of a database in which the state is found: the cities of
  the state and all their locations are gone, but of the cars only those at locations
  that are not soft-deleted, and of the reservations only those of such cars.
\<close>

lemma deleteState_found:
  assumes "List.find (\<lambda>s. st_id s = i) (States d) = Some s"
  shows "deleteState i d = (204,
     d\<lparr>Reservations := filter (\<lambda>r. r_carId r \<notin> c_id ` {c \<in> set (Cars d).
            c_locationId c \<in> l_id ` {l \<in> set (Locations d). l_cityId l \<in> set (cities_of d i) \<and>
               l_deleted l = None}}) (Reservations d),
       Cars := filter (\<lambda>c. c_locationId c \<notin> l_id ` {l \<in> set (Locations d).
               l_cityId l \<in> set (cities_of d i) \<and> l_deleted l = None}) (Cars d),
       Locations := filter (\<lambda>l. l_cityId l \<notin> set (cities_of d i)) (Locations d),
       Cities := filter (\<lambda>c. ci_stateId c \<noteq> i) (Cities d),
       States := delete_first (\<lambda>s. st_id s = i) (States d)\<rparr>)"
proof -
  from assms have "st_id s = i" by (auto simp: find_Some_iff)
  with assms show ?thesis
    by (simp add: deleteState_def State_findByIdAndDelete_def City_deleteMany_def
        Location_deleteMany_eq Let_def q_matches_def cities_of_def)
qed

text \<open>
  When no location beneath the state is soft-deleted, the cascade is complete: exactly
  the cities, locations, cars and reservations beneath the state are removed.
\<close>

lemma deleteState_cascade_live:
  assumes found: "List.find (\<lambda>s. st_id s = i) (States d) \<noteq> None"
    and live: "\<forall>l\<in>set (Locations d). l_cityId l \<in> set (cities_of d i) \<longrightarrow> l_deleted l = None"
  shows "fst (deleteState i d) = 204
    \<and> States (snd (deleteState i d)) = delete_first (\<lambda>s. st_id s = i) (States d)
    \<and> Cities (snd (deleteState i d)) = filter (\<lambda>c. ci_stateId c \<noteq> i) (Cities d)
    \<and> Locations (snd (deleteState i d)) =
        filter (\<lambda>l. l_cityId l \<notin> set (cities_of d i)) (Locations d)
    \<and> Cars (snd (deleteState i d)) =
        filter (\<lambda>c. c_locationId c \<notin> set (locations_of d i)) (Cars d)
    \<and> Reservations (snd (deleteState i d)) =
        filter (\<lambda>r. r_carId r \<notin> set (cars_of d i)) (Reservations d)"
proof -
  from found obtain s where s: "List.find (\<lambda>s. st_id s = i) (States d) = Some s" by auto
  have l: "l_id ` {l \<in> set (Locations d). l_cityId l \<in> set (cities_of d i) \<and> l_deleted l = None} =
      set (locations_of d i)"
    using live by (auto simp: locations_of_def)
  show ?thesis
    by (simp add: deleteState_found [OF s] l) (auto simp: cars_of_def intro!: filter_cong)
qed

text \<open>The document path \<open>location.deleteOne()\<close> does cascade to the cars of the location
  and to their reservations.\<close>

lemma Location_deleteOne_cascade:
  "Cars (Location_deleteOne l d) = filter (\<lambda>c. c_locationId c \<noteq> l_id l) (Cars d)
   \<and> Reservations (Location_deleteOne l d) =
       filter (\<lambda>r. r_carId r \<notin> c_id ` {c \<in> set (Cars d). c_locationId c = l_id l}) (Reservations d)
   \<and> Locations (Location_deleteOne l d) = delete_first (\<lambda>x. l_id x = l_id l) (Locations d)"
  by (simp add: Location_deleteOne_def Car_deleteMany_eq Let_def)

text \<open>\<open>deleteLocation\<close> never touches a car or a reservation.\<close>

lemma deleteLocation_frame:
  "Cars (snd (deleteLocation i d)) = Cars d \<and>
   Reservations (snd (deleteLocation i d)) = Reservations d"
  by (simp add: deleteLocation_def Location_findByIdAndDelete_def Let_def split: option.splits)

text \<open>
  Claim C3 fails on the code.  In the example the location 1 holds the car 1, which
  holds the reservation 1.  \<open>deleteLocation 1\<close> is answered 204 and removes the
  location; the car, whose \<open>locationId\<close> is still 1, and its reservation survive,
  because \<open>findByIdAndDelete\<close> runs neither delete hook of the Location schema.
\<close>

theorem deleteLocation_leaves_cars:
  "deleteLocation 1 example_db = (204, example_db\<lparr>Locations := []\<rparr>)
   \<and> map c_locationId (Cars (snd (deleteLocation 1 example_db))) = [1]
   \<and> map r_carId (Reservations (snd (deleteLocation 1 example_db))) = [1]"
  by (simp add: example_db_def deleteLocation_def Location_findByIdAndDelete_def pre_find_def
      q_matches_def by_id_def)

text \<open>
  Claim C4 fails on the code where a location beneath the state is soft-deleted.  In
  \<open>soft_deleted_db\<close> the location 1, the car 1 and the reservation 1 lie beneath the
  state 1.  \<open>deleteState 1\<close> is answered 204 and removes the state, its city and the
  location, but the car and the reservation survive: the \<open>find\<close> inside the
  \<open>deleteMany\<close> hook of Location is filtered by the pre-find hook and does not see the
  soft-deleted location, so its cars are never handed to \<open>Car.deleteMany\<close>.
\<close>

theorem deleteState_leaves_cars_of_soft_deleted_location:
  "locations_of soft_deleted_db 1 = [1] \<and> cars_of soft_deleted_db 1 = [1]
   \<and> reservations_of soft_deleted_db 1 = [1]
   \<and> deleteState 1 soft_deleted_db =
       (204, soft_deleted_db\<lparr>States := [\<lparr>st_id = 2, st_name = ''Texas''\<rparr>], Cities := [],
                              Locations := []\<rparr>)
   \<and> map c_id (Cars (snd (deleteState 1 soft_deleted_db))) = [1]
   \<and> map r_id (Reservations (snd (deleteState 1 soft_deleted_db))) = [1]"
  by (simp add: soft_deleted_db_def example_db_def deleteState_def State_findByIdAndDelete_def
      City_deleteMany_def Location_deleteMany_def Car_deleteMany_def Reservation_deleteMany_def
      Location_find_def soft_find_def pre_find_def q_matches_def
      cities_of_def locations_of_def cars_of_def reservations_of_def)

section \<open>Soft-delete visibility\<close>

text \<open>
  Claim C6.  A find on Location or on User returns the documents that match the caller's
  conditions, less the soft-deleted ones unless the caller set the option
  \<open>withDeleted\<close> or gave a condition on \<open>deleted\<close> itself.  \<open>findById\<close> follows the
  same rule as \<open>find\<close>.  So by default no soft-deleted location is returned; with the
  option every matching location is; with the explicit condition \<open>{ deleted: { $ne: null
  } }\<close> every matching soft-deleted one is.  \<open>getLocations\<close> returns the live matching
  locations by default and the soft-deleted ones for \<open>deleted=true\<close>.
\<close>

theorem soft_delete_visibility:
  "Location_find wd q d =
     filter (\<lambda>l. q_matches l_deleted q l \<and> (wd \<or> q_deleted q \<noteq> None \<or> l_deleted l = None))
       (Locations d)
   \<and> Location_findById wd i d =
     List.find (\<lambda>l. l_id l = i \<and> (wd \<or> l_deleted l = None)) (Locations d)
   \<and> User_find wd uq d =
     filter (\<lambda>u. q_matches u_deleted uq u \<and> (wd \<or> q_deleted uq \<noteq> None \<or> u_deleted u = None))
       (Users d)
   \<and> User_findById wd i d =
     List.find (\<lambda>u. u_id u = i \<and> (wd \<or> u_deleted u = None)) (Users d)
   \<and> (\<forall>l \<in> set (Location_find False \<lparr>q_conds = c, q_deleted = None\<rparr> d). l_deleted l = None)
   \<and> (\<forall>l \<in> set (Locations d). c l \<longrightarrow>
         l \<in> set (Location_find True \<lparr>q_conds = c, q_deleted = None\<rparr> d))
   \<and> (\<forall>l \<in> set (Locations d). c l \<and> l_deleted l \<noteq> None \<longrightarrow>
         l \<in> set (Location_find wd \<lparr>q_conds = c, q_deleted = Some NeNull\<rparr> d))
   \<and> getLocations cityId userId None d =
       filter (\<lambda>l. q_conds (getLocations_query cityId userId None) l \<and> l_deleted l = None)
         (Locations d)
   \<and> getLocations cityId userId (Some ''true'') d =
       filter (\<lambda>l. q_conds (getLocations_query cityId userId None) l \<and> l_deleted l \<noteq> None)
         (Locations d)"
proof (intro conjI)
  show "Location_find wd q d =
     filter (\<lambda>l. q_matches l_deleted q l \<and> (wd \<or> q_deleted q \<noteq> None \<or> l_deleted l = None))
       (Locations d)"
    by (simp add: Location_find_def soft_find_def soft_rule)
  show "Location_findById wd i d =
     List.find (\<lambda>l. l_id l = i \<and> (wd \<or> l_deleted l = None)) (Locations d)"
    by (simp add: Location_findById_def Location_findOne_def soft_findOne_def soft_rule by_id_def
        q_matches_def)
  show "User_find wd uq d =
     filter (\<lambda>u. q_matches u_deleted uq u \<and> (wd \<or> q_deleted uq \<noteq> None \<or> u_deleted u = None))
       (Users d)"
    by (simp add: User_find_def soft_find_def soft_rule)
  show "User_findById wd i d =
     List.find (\<lambda>u. u_id u = i \<and> (wd \<or> u_deleted u = None)) (Users d)"
    by (simp add: User_findById_def soft_findOne_def soft_rule by_id_def q_matches_def)
  show "\<forall>l \<in> set (Location_find False \<lparr>q_conds = c, q_deleted = None\<rparr> d). l_deleted l = None"
    by (simp add: Location_find_def soft_find_def soft_rule)
  show "\<forall>l \<in> set (Locations d). c l \<longrightarrow>
      l \<in> set (Location_find True \<lparr>q_conds = c, q_deleted = None\<rparr> d)"
    by (simp add: Location_find_def soft_find_def soft_rule q_matches_def)
  show "\<forall>l \<in> set (Locations d). c l \<and> l_deleted l \<noteq> None \<longrightarrow>
      l \<in> set (Location_find wd \<lparr>q_conds = c, q_deleted = Some NeNull\<rparr> d)"
    by (simp add: Location_find_def soft_find_def soft_rule q_matches_def)
  show "getLocations cityId userId None d =
       filter (\<lambda>l. q_conds (getLocations_query cityId userId None) l \<and> l_deleted l = None)
         (Locations d)"
    by (simp add: getLocations_def Location_find_def soft_find_def soft_rule q_matches_def
        getLocations_query_def)
  show "getLocations cityId userId (Some ''true'') d =
       filter (\<lambda>l. q_conds (getLocations_query cityId userId None) l \<and> l_deleted l \<noteq> None)
         (Locations d)"
    by (simp add: getLocations_def Location_find_def soft_find_def soft_rule q_matches_def
        getLocations_query_def)
qed

text \<open>
  The soft-deleted location of \<open>soft_deleted_db\<close> is absent from the default find and
  from the default lookup by id, and present in both with the option, and in the find
  with the explicit condition.
\<close>

theorem soft_delete_visibility_witness:
  "Location_find False \<lparr>q_conds = (\<lambda>l. True), q_deleted = None\<rparr> soft_deleted_db = []
   \<and> Location_find True \<lparr>q_conds = (\<lambda>l. True), q_deleted = None\<rparr> soft_deleted_db =
       Locations soft_deleted_db
   \<and> Location_find False \<lparr>q_conds = (\<lambda>l. True), q_deleted = Some NeNull\<rparr> soft_deleted_db =
       Locations soft_deleted_db
   \<and> Location_findById False 1 soft_deleted_db = None
   \<and> Location_findById True 1 soft_deleted_db = Some (hd (Locations soft_deleted_db))"
  using soft_delete_visibility
      [of True "\<lparr>q_conds = (\<lambda>l. True), q_deleted = None\<rparr>" soft_deleted_db 1]
    soft_delete_visibility
      [of False "\<lparr>q_conds = (\<lambda>l. True), q_deleted = None\<rparr>" soft_deleted_db 1]
    soft_delete_visibility
      [of False "\<lparr>q_conds = (\<lambda>l. True), q_deleted = Some NeNull\<rparr>" soft_deleted_db 1]
  by (simp add: soft_deleted_db_def example_db_def q_matches_def)

section \<open>Normalisation and uniqueness\<close>

lemmas char_defs =
  is_word_def is_space_def is_digit_def is_letter_def lower_letters_def upper_letters_def
  toUpperCase_def toLowerCase_def

lemmas trim_defs = trim_def trimStart_def trimEnd_def

lemma is_word_not_space: "is_word c \<Longrightarrow> \<not> is_space c"
  by (auto simp: is_word_def is_space_def is_digit_def lower_letters_def upper_letters_def)

lemma takeWhile_boundary:
  "rest = [] \<or> is_space (hd rest) \<Longrightarrow> takeWhile (\<lambda>x. \<not> is_space x) rest = []"
  by (cases rest) auto

lemma dropWhile_boundary:
  "rest = [] \<or> is_space (hd rest) \<Longrightarrow> dropWhile (\<lambda>x. \<not> is_space x) rest = rest"
  by (cases rest) auto

lemma rest_boundary:
  "dropWhile (\<lambda>x. \<not> is_space x) cs = [] \<or> is_space (hd (dropWhile (\<lambda>x. \<not> is_space x) cs))"
  using hd_dropWhile [of "\<lambda>x. \<not> is_space x" cs] by auto

text \<open>On a token followed by whitespace or by the end, the replacement acts as
  \<open>word_title\<close> and goes on behind the token.\<close>

lemma replace_token:
  "\<forall>x\<in>set tk. \<not> is_space x \<Longrightarrow> rest = [] \<or> is_space (hd rest) \<Longrightarrow>
     replace_w_S capitalize (tk @ rest) = word_title tk @ replace_w_S capitalize rest"
proof (induction tk)
  case Nil
  then show ?case by (simp add: word_title_def)
next
  case (Cons c tk)
  show ?case
  proof (cases "is_word c")
    case True
    with Cons.prems show ?thesis
      by (simp add: word_title_def takeWhile_boundary dropWhile_boundary)
  next
    case False
    with Cons show ?thesis by (simp add: word_title_def)
  qed
qed

lemma replace_per_token: "replace_w_S capitalize v = per_token word_title v"
proof (induction word_title v rule: per_token.induct)
  case 1
  then show ?case by simp
next
  case (2 c cs)
  show ?case
  proof (cases "is_space c")
    case True
    with 2 show ?thesis by (auto dest: is_word_not_space)
  next
    case False
    let ?tk = "c # takeWhile (\<lambda>x. \<not> is_space x) cs"
    let ?rest = "dropWhile (\<lambda>x. \<not> is_space x) cs"
    have tk: "\<forall>x\<in>set ?tk. \<not> is_space x"
      using False by (auto dest: set_takeWhileD)
    have "replace_w_S capitalize (?tk @ ?rest) = word_title ?tk @ replace_w_S capitalize ?rest"
      by (rule replace_token [OF tk rest_boundary])
    moreover have "?tk @ ?rest = c # cs" by simp
    ultimately have "replace_w_S capitalize (c # cs) =
        word_title ?tk @ replace_w_S capitalize ?rest"
      by (simp only:)
    with 2 False show ?thesis by simp
  qed
qed

text \<open>Trimming at the end, by cases.\<close>

lemma trimEnd_Nil [simp]: "trimEnd [] = []"
  by (simp add: trimEnd_def)

lemma trimEnd_Cons:
  "trimEnd (x # xs) = (if is_space x \<and> (\<forall>y\<in>set xs. is_space y) then [] else x # trimEnd xs)"
  by (auto simp: trimEnd_def dropWhile_append)

lemma trimEnd_Nil_iff: "trimEnd xs = [] \<longleftrightarrow> (\<forall>y\<in>set xs. is_space y)"
  by (induction xs) (auto simp: trimEnd_Cons)

lemma trimEnd_append:
  "trimEnd (xs @ ys) = (if \<forall>y\<in>set ys. is_space y then trimEnd xs else xs @ trimEnd ys)"
  by (induction xs) (auto simp: trimEnd_Cons trimEnd_Nil_iff)

lemma trimEnd_nospace: "\<forall>x\<in>set xs. \<not> is_space x \<Longrightarrow> trimEnd xs = xs"
  by (induction xs) (auto simp: trimEnd_Cons)

lemma trimEnd_boundary:
  "rest = [] \<or> is_space (hd rest) \<Longrightarrow> trimEnd rest = [] \<or> is_space (hd (trimEnd rest))"
  by (cases rest) (auto simp: trimEnd_Cons)

lemma takeWhile_token:
  "\<forall>x\<in>set tk. \<not> is_space x \<Longrightarrow> rest = [] \<or> is_space (hd rest) \<Longrightarrow>
     takeWhile (\<lambda>x. \<not> is_space x) (tk @ rest) = tk"
  by (cases rest) auto

lemma dropWhile_token:
  "\<forall>x\<in>set tk. \<not> is_space x \<Longrightarrow> rest = [] \<or> is_space (hd rest) \<Longrightarrow>
     dropWhile (\<lambda>x. \<not> is_space x) (tk @ rest) = rest"
  by (cases rest) auto

text \<open>Case conversion maps a character that is not whitespace to one that is not.\<close>

lemma toUpperCase_cases: "toUpperCase c = c \<or> toUpperCase c \<in> set upper_letters"
  by (auto simp: toUpperCase_def split: option.splits dest!: map_of_SomeD set_zip_rightD)

lemma toLowerCase_cases: "toLowerCase c = c \<or> toLowerCase c \<in> set lower_letters"
  by (auto simp: toLowerCase_def split: option.splits dest!: map_of_SomeD set_zip_rightD)

lemma letter_not_space: "c \<in> set upper_letters \<or> c \<in> set lower_letters \<Longrightarrow> \<not> is_space c"
  by (auto simp: is_space_def lower_letters_def upper_letters_def)

lemma case_not_space: "\<not> is_space c \<Longrightarrow> \<not> is_space (toUpperCase c) \<and> \<not> is_space (toLowerCase c)"
  using toUpperCase_cases [of c] toLowerCase_cases [of c] letter_not_space by metis

lemma capitalize_nospace:
  "\<forall>x\<in>set u. \<not> is_space x \<Longrightarrow> \<forall>x\<in>set (capitalize u). \<not> is_space x"
  by (cases u) (auto simp: case_not_space)

lemma length_capitalize: "length (capitalize u) = length u"
  by (cases u) auto

lemma word_title_token:
  assumes "t \<noteq> []" "\<forall>x\<in>set t. \<not> is_space x"
  shows "word_title t \<noteq> [] \<and> (\<forall>x\<in>set (word_title t). \<not> is_space x)"
proof -
  let ?a = "takeWhile (\<lambda>x. \<not> is_word x) t" and ?b = "dropWhile (\<lambda>x. \<not> is_word x) t"
  have a: "\<forall>x\<in>set ?a. \<not> is_space x" using assms(2) by (auto dest: set_takeWhileD)
  have b: "\<forall>x\<in>set ?b. \<not> is_space x" using assms(2) by (auto dest: set_dropWhileD)
  have cb: "\<forall>x\<in>set (capitalize ?b). \<not> is_space x"
    by (rule capitalize_nospace [OF b])
  have "length (word_title t) = length ?a + length ?b"
    by (simp add: word_title_def length_capitalize)
  also have "\<dots> = length (?a @ ?b)"
    by (simp only: length_append)
  also have "\<dots> = length t"
    by (simp only: takeWhile_dropWhile_id)
  finally have "length (word_title t) = length t" .
  with assms(1) have ne: "word_title t \<noteq> []" by auto
  have "\<forall>x\<in>set (?a @ capitalize ?b). \<not> is_space x"
    using a cb by (simp only: set_append ball_Un)
  then have "\<forall>x\<in>set (word_title t). \<not> is_space x"
    by (simp only: word_title_def)
  with ne show ?thesis by blast
qed


text \<open>
  A function on tokens that maps a token to a token commutes, applied per token, with
  the trimming.
\<close>

lemma per_token_space_iff:
  assumes tok: "\<And>t. t \<noteq> [] \<Longrightarrow> \<forall>x\<in>set t. \<not> is_space x \<Longrightarrow>
      f t \<noteq> [] \<and> (\<forall>x\<in>set (f t). \<not> is_space x)"
  shows "(\<forall>y\<in>set (per_token f v). is_space y) \<longleftrightarrow> (\<forall>y\<in>set v. is_space y)"
proof (induction v rule: length_induct)
  case (1 v)
  show ?case
  proof (cases v)
    case Nil
    then show ?thesis by simp
  next
    case (Cons c cs)
    show ?thesis
    proof (cases "is_space c")
      case True
      have "length cs < length v" using Cons by simp
      with 1 have "(\<forall>y\<in>set (per_token f cs). is_space y) \<longleftrightarrow> (\<forall>y\<in>set cs. is_space y)"
        by blast
      with True Cons show ?thesis by simp
    next
      case False
      let ?tk = "c # takeWhile (\<lambda>x. \<not> is_space x) cs"
      have "f ?tk \<noteq> [] \<and> (\<forall>x\<in>set (f ?tk). \<not> is_space x)"
        using False by (intro tok) (auto dest: set_takeWhileD)
      then obtain y where "y \<in> set (f ?tk)" "\<not> is_space y"
        by (cases "f ?tk") auto
      with False Cons show ?thesis by auto
    qed
  qed
qed

lemma per_token_trimStart:
  assumes tok: "\<And>t. t \<noteq> [] \<Longrightarrow> \<forall>x\<in>set t. \<not> is_space x \<Longrightarrow>
      f t \<noteq> [] \<and> (\<forall>x\<in>set (f t). \<not> is_space x)"
  shows "per_token f (trimStart v) = trimStart (per_token f v)"
proof (induction v)
  case Nil
  then show ?case by (simp add: trimStart_def)
next
  case (Cons c cs)
  show ?case
  proof (cases "is_space c")
    case True
    with Cons show ?thesis by (simp add: trimStart_def)
  next
    case False
    let ?tk = "c # takeWhile (\<lambda>x. \<not> is_space x) cs"
    have "f ?tk \<noteq> [] \<and> (\<forall>x\<in>set (f ?tk). \<not> is_space x)"
      using False by (intro tok) (auto dest: set_takeWhileD)
    then have "dropWhile is_space (f ?tk @ r) = f ?tk @ r" for r
      by (cases "f ?tk") auto
    with False show ?thesis by (simp add: trimStart_def)
  qed
qed

lemma per_token_trimEnd:
  assumes tok: "\<And>t. t \<noteq> [] \<Longrightarrow> \<forall>x\<in>set t. \<not> is_space x \<Longrightarrow>
      f t \<noteq> [] \<and> (\<forall>x\<in>set (f t). \<not> is_space x)"
  shows "per_token f (trimEnd v) = trimEnd (per_token f v)"
proof (induction v rule: length_induct)
  case (1 v)
  show ?case
  proof (cases v)
    case Nil
    then show ?thesis by simp
  next
    case (Cons c cs)
    show ?thesis
    proof (cases "is_space c")
      case True
      have "length cs < length v" using Cons by simp
      with 1 have "per_token f (trimEnd cs) = trimEnd (per_token f cs)" by blast
      with True Cons show ?thesis
        by (simp add: trimEnd_Cons per_token_space_iff [of f, OF tok])
    next
      case False
      let ?tk = "c # takeWhile (\<lambda>x. \<not> is_space x) cs"
      let ?rest = "dropWhile (\<lambda>x. \<not> is_space x) cs"
      have tk: "\<forall>x\<in>set ?tk. \<not> is_space x"
        using False by (auto dest: set_takeWhileD)
      have ftk: "f ?tk \<noteq> [] \<and> (\<forall>x\<in>set (f ?tk). \<not> is_space x)"
        using tk by (intro tok) auto
      have "length ?rest < length v"
        using Cons by (simp add: le_imp_less_Suc length_dropWhile_le)
      with 1 have IH: "per_token f (trimEnd ?rest) = trimEnd (per_token f ?rest)" by blast
      have split: "c # cs = ?tk @ ?rest" by simp
      have b: "trimEnd ?rest = [] \<or> is_space (hd (trimEnd ?rest))"
        by (rule trimEnd_boundary [OF rest_boundary])
      have "trimEnd (?tk @ ?rest) = ?tk @ trimEnd ?rest"
        using tk by (simp only: trimEnd_append trimEnd_nospace trimEnd_Nil_iff [symmetric]) simp
      then have L1: "trimEnd (c # cs) = ?tk @ trimEnd ?rest"
        by (simp only: split [symmetric])
      have tk': "\<forall>x\<in>set (takeWhile (\<lambda>x. \<not> is_space x) cs). \<not> is_space x"
        by (auto dest: set_takeWhileD)
      have L2: "per_token f (?tk @ trimEnd ?rest) = f ?tk @ per_token f (trimEnd ?rest)"
        using False by (simp add: takeWhile_token [OF tk' b] dropWhile_token [OF tk' b])
      have R1: "per_token f (c # cs) = f ?tk @ per_token f ?rest"
        using False by simp
      from ftk have ftk2: "\<forall>x\<in>set (f ?tk). \<not> is_space x" by blast
      have R2: "trimEnd (f ?tk @ per_token f ?rest) = f ?tk @ trimEnd (per_token f ?rest)"
        using ftk2 by (simp only: trimEnd_append trimEnd_nospace trimEnd_Nil_iff [symmetric]) simp
      show ?thesis
        by (simp only: Cons L1 L2 R1 R2 IH)
    qed
  qed
qed

lemma trim_per_token_word_title: "trim (per_token word_title v) = per_token word_title (trim v)"
  by (simp add: trim_def per_token_trimEnd [of word_title, OF word_title_token]
      per_token_trimStart [of word_title, OF word_title_token])

text \<open>
  Claim C7, as the code has it.  The stored name is the value trimmed of surrounding
  whitespace, with each whitespace-delimited token rewritten from its first word
  character (letter, digit or underscore) on: the characters before it stay, that
  character is uppercased and the rest of the token lowercased; a token that begins with
  a word character has its first character uppercased and its remainder lowercased.
  Trimming and rewriting commute.  The setter is the same for City and State.  \<open>" san jose "\<close> is stored as \<open>"San Jose"\<close>.  For a state that
  exists and a normalised name of 2 to 100 characters, \<open>createCity\<close> answers 409 and
  writes nothing when a city with that state and that normalised name is stored, and
  otherwise stores the city under the normalised name, whatever is stored under other
  states.
\<close>

theorem name_set_and_city_uniqueness:
  "name_set v = per_token word_title (trim v)
   \<and> name_set v = trim (per_token word_title v)
   \<and> (t \<noteq> [] \<and> is_word (hd t) \<longrightarrow> word_title t = capitalize t)
   \<and> name_set '' san jose '' = ''San Jose''
   \<and> (State_exists sid d \<and> 2 \<le> length (name_set n) \<and> length (name_set n) \<le> 100 \<and>
        (\<exists>c \<in> set (Cities d). ci_stateId c = sid \<and> ci_name c = name_set n) \<longrightarrow>
      createCity n sid d = ((409, None), d))
   \<and> (State_exists sid d \<and> 2 \<le> length (name_set n) \<and> length (name_set n) \<le> 100 \<and>
        \<not> (\<exists>c \<in> set (Cities d). ci_stateId c = sid \<and> ci_name c = name_set n) \<longrightarrow>
      (\<exists>c. createCity n sid d = ((201, Some c), d\<lparr>Cities := Cities d @ [c]\<rparr>) \<and>
           ci_name c = name_set n \<and> ci_stateId c = sid))"
proof (intro conjI)
  show "name_set v = per_token word_title (trim v)"
    by (simp add: name_set_def replace_per_token trim_per_token_word_title)
  show "name_set v = trim (per_token word_title v)"
    by (simp add: name_set_def replace_per_token)
  show "t \<noteq> [] \<and> is_word (hd t) \<longrightarrow> word_title t = capitalize t"
    by (cases t) (simp_all add: word_title_def)
  show "name_set '' san jose '' = ''San Jose''"
    by (simp add: name_set_def trim_defs char_defs)
  show "State_exists sid d \<and> 2 \<le> length (name_set n) \<and> length (name_set n) \<le> 100 \<and>
        (\<exists>c \<in> set (Cities d). ci_stateId c = sid \<and> ci_name c = name_set n) \<longrightarrow>
      createCity n sid d = ((409, None), d)"
    by (auto simp: createCity_def City_save_def City_validate_def list_ex_iff)
  show "State_exists sid d \<and> 2 \<le> length (name_set n) \<and> length (name_set n) \<le> 100 \<and>
        \<not> (\<exists>c \<in> set (Cities d). ci_stateId c = sid \<and> ci_name c = name_set n) \<longrightarrow>
      (\<exists>c. createCity n sid d = ((201, Some c), d\<lparr>Cities := Cities d @ [c]\<rparr>) \<and>
           ci_name c = name_set n \<and> ci_stateId c = sid)"
    by (auto simp: createCity_def City_save_def City_validate_def list_ex_iff)
qed

text \<open>
  In the example San Jose is stored under the state 1: a second \<open>"san jose"\<close> under the
  state 1 is answered 409, and \<open>" san jose "\<close> under the state 2 is stored as
  \<open>"San Jose"\<close>.
\<close>

theorem name_set_and_city_uniqueness_witness:
  "createCity ''san jose'' 1 example_db = ((409, None), example_db)
   \<and> (\<exists>c. createCity '' san jose '' 2 example_db =
            ((201, Some c), example_db\<lparr>Cities := Cities example_db @ [c]\<rparr>) \<and>
          ci_name c = ''San Jose'' \<and> ci_stateId c = 2)"
proof -
  have n: "name_set ''san jose'' = ''San Jose''" "name_set '' san jose '' = ''San Jose''"
    by (simp_all add: name_set_def trim_defs char_defs)
  have s: "State_exists 1 example_db" "State_exists 2 example_db"
    by (simp_all add: State_exists_def example_db_def)
  have a: "createCity ''san jose'' 1 example_db = ((409, None), example_db)"
    using name_set_and_city_uniqueness [of _ _ 1 example_db "''san jose''"] n s
    by (simp add: example_db_def)
  have b: "\<exists>c. createCity '' san jose '' 2 example_db =
            ((201, Some c), example_db\<lparr>Cities := Cities example_db @ [c]\<rparr>) \<and>
          ci_name c = ''San Jose'' \<and> ci_stateId c = 2"
    using name_set_and_city_uniqueness [of _ _ 2 example_db "'' san jose ''"] n s
    by (simp add: example_db_def)
  from a b show ?thesis by simp
qed

text \<open>
  Against C7 as stated: of the name \<open>"(a 1b"\<close> the rule of the specification makes
  \<open>"(a 1b"\<close> when the first letter of a token is its first character, and \<open>"(A 1B"\<close>
  when it is its first alphabetic character; the setter stores \<open>"(A 1b"\<close>.
\<close>

theorem name_set_token_counterexample:
  "name_set ''(a 1b'' = ''(A 1b''
   \<and> spec_name_normalize ''(a 1b'' = ''(a 1b''
   \<and> spec_name_normalize_first_letter ''(a 1b'' = ''(A 1B''"
  by (simp add: name_set_def spec_name_normalize_def spec_name_normalize_first_letter_def
      word_title_def spec_letter_title_def trim_defs char_defs)

section \<open>Phone numbers\<close>

lemma plus_not_digit: "\<not> is_digit CHR ''+''"
  by (simp add: is_digit_def)

lemma phone_number_validator_iff:
  "phone_number_validator w \<longleftrightarrow>
     (\<exists>ds. w = CHR ''+'' # ds \<and> list_all is_digit ds \<and> 7 \<le> length ds \<and> length ds \<le> 15)"
  by (cases w) (auto simp: phone_number_validator_def)

text \<open>
  The raw values that are accepted: exactly one plus sign, no digit before it, and 7 to
  15 digits behind it, among any other characters.
\<close>

lemma phone_number_accepted_raw:
  "phone_number_validator (phone_number_set v) \<longleftrightarrow>
     (\<exists>pre post. v = pre @ CHR ''+'' # post \<and> (\<forall>c\<in>set pre. \<not> is_digit c \<and> c \<noteq> CHR ''+'') \<and>
        CHR ''+'' \<notin> set post \<and> 7 \<le> length (filter is_digit post) \<and>
        length (filter is_digit post) \<le> 15)"
  (is "?L \<longleftrightarrow> ?R")
proof
  assume ?R
  then obtain pre post where v: "v = pre @ CHR ''+'' # post"
    and pre: "\<forall>c\<in>set pre. \<not> is_digit c \<and> c \<noteq> CHR ''+''"
    and post: "CHR ''+'' \<notin> set post"
    and len: "7 \<le> length (filter is_digit post)" "length (filter is_digit post) \<le> 15"
    by blast
  have a: "filter (\<lambda>c. is_digit c \<or> c = CHR ''+'') pre = []"
    using pre by (simp add: filter_empty_conv)
  have b: "filter (\<lambda>c. is_digit c \<or> c = CHR ''+'') post = filter is_digit post"
    using post by (intro filter_cong) auto
  have "phone_number_set v = CHR ''+'' # filter is_digit post"
    by (simp add: phone_number_set_def v a b)
  with len show ?L
    by (simp add: phone_number_validator_def list_all_iff)
next
  assume ?L
  then obtain ds where k: "phone_number_set v = CHR ''+'' # ds" and ds: "list_all is_digit ds"
    and len: "7 \<le> length ds" "length ds \<le> 15"
    by (auto simp: phone_number_validator_iff)
  from k have "filter (\<lambda>c. is_digit c \<or> c = CHR ''+'') v = CHR ''+'' # ds"
    by (simp add: phone_number_set_def)
  then obtain pre post where v: "v = pre @ CHR ''+'' # post"
    and pre: "\<forall>c\<in>set pre. \<not> (is_digit c \<or> c = CHR ''+'')"
    and post: "ds = filter (\<lambda>c. is_digit c \<or> c = CHR ''+'') post"
    by (auto simp: filter_eq_Cons_iff)
  have np: "CHR ''+'' \<notin> set post"
  proof
    assume "CHR ''+'' \<in> set post"
    then have "CHR ''+'' \<in> set ds" using post by simp
    with ds show False by (auto simp: list_all_iff plus_not_digit)
  qed
  then have "filter (\<lambda>c. is_digit c \<or> c = CHR ''+'') post = filter is_digit post"
    by (intro filter_cong) auto
  with post len have "7 \<le> length (filter is_digit post)" "length (filter is_digit post) \<le> 15"
    by simp_all
  with v pre np show ?R by blast
qed

text \<open>
  A raw value that the route admits has a plus sign in first position at most, so the
  setter leaves none behind a digit.
\<close>

lemma route_phone_number_set:
  assumes "route_phone_number v"
  shows "phone_number_set v =
     (case v of [] \<Rightarrow> []
      | c # cs \<Rightarrow> if c = CHR ''+'' then CHR ''+'' # filter is_digit cs else filter is_digit (c # cs))"
proof -
  have f: "filter (\<lambda>c. is_digit c \<or> c = CHR ''+'') b = filter is_digit b"
    if "list_all (\<lambda>c. is_digit c \<or> is_space c \<or> c \<in> set ''-()'') b" for b
    using that by (intro filter_cong) (auto simp: list_all_iff is_space_def)
  show ?thesis
  proof (cases v)
    case Nil
    then show ?thesis by (simp add: phone_number_set_def)
  next
    case (Cons c cs)
    show ?thesis
    proof (cases "c = CHR ''+''")
      case True
      with assms Cons have "list_all (\<lambda>c. is_digit c \<or> is_space c \<or> c \<in> set ''-()'') cs"
        by (simp add: route_phone_number_def)
      with True Cons show ?thesis
        by (simp add: phone_number_set_def f)
    next
      case False
      with assms Cons have "list_all (\<lambda>c. is_digit c \<or> is_space c \<or> c \<in> set ''-()'') (c # cs)"
        by (simp add: route_phone_number_def)
      then have "filter (\<lambda>c. is_digit c \<or> c = CHR ''+'') (c # cs) = filter is_digit (c # cs)"
        by (rule f)
      with Cons False show ?thesis
        by (simp add: phone_number_set_def)
    qed
  qed
qed

text \<open>A plus sign that is kept behind another kept character makes the validator refuse.\<close>

lemma inner_plus_refused:
  assumes "is_digit c \<or> c = CHR ''+''"
  shows "\<not> phone_number_validator (phone_number_set (a @ c # b @ CHR ''+'' # rest))"
proof
  let ?w = "phone_number_set (a @ c # b @ CHR ''+'' # rest)"
  assume "phone_number_validator ?w"
  then obtain ds where w: "?w = CHR ''+'' # ds" and ds: "list_all is_digit ds"
    by (auto simp: phone_number_validator_iff)
  have e: "?w = phone_number_set a @ c # phone_number_set b @ CHR ''+'' # phone_number_set rest"
    using assms by (auto simp: phone_number_set_def)
  have "CHR ''+'' \<in> set (tl (xs @ c # ys @ CHR ''+'' # zs))" for xs ys zs :: string
    by (cases xs) auto
  then have "CHR ''+'' \<in> set (tl ?w)" by (simp only: e)
  with w have "CHR ''+'' \<in> set ds" by simp
  with ds show False by (auto simp: list_all_iff plus_not_digit)
qed

text \<open>
  Claim C8, as the code has it.  The normalised value is the raw value with exactly the
  characters other than \<open>0\<close> to \<open>9\<close> and \<open>+\<close> removed: every digit and every plus
  sign is kept where it stands among the kept characters, a plus sign behind a digit no
  less than a leading one.  So the result has only digits and plus signs, as many plus
  signs as the raw value and the same digits in the same order, and a value of digits and
  plus signs only is left as it is.  The normalised value is accepted exactly when it is
  a plus sign followed by 7 to 15 digits; that is, when the raw value has exactly one
  plus sign, no digit before it and 7 to 15 digits behind it.  A raw value with a plus
  sign behind a digit or behind another plus sign is refused.
\<close>

theorem phone_number_set_keeps_every_plus:
  "phone_number_set v = filter (\<lambda>c. c \<in> set ''0123456789+'') v
   \<and> phone_number_set (c # v) =
       (if c \<in> set ''0123456789+'' then c # phone_number_set v else phone_number_set v)
   \<and> phone_number_set (v @ w) = phone_number_set v @ phone_number_set w
   \<and> set (phone_number_set v) = {c \<in> set v. is_digit c \<or> c = CHR ''+''}
   \<and> count_list (phone_number_set v) CHR ''+'' = count_list v CHR ''+''
   \<and> filter is_digit (phone_number_set v) = filter is_digit v
   \<and> ((\<forall>c\<in>set v. is_digit c \<or> c = CHR ''+'') \<longrightarrow> phone_number_set v = v)
   \<and> (phone_number_validator (phone_number_set v) \<longleftrightarrow>
        (\<exists>ds. phone_number_set v = CHR ''+'' # ds \<and> list_all is_digit ds \<and>
              7 \<le> length ds \<and> length ds \<le> 15))
   \<and> (phone_number_validator (phone_number_set v) \<longleftrightarrow>
        (\<exists>pre post. v = pre @ CHR ''+'' # post \<and>
           (\<forall>c\<in>set pre. \<not> is_digit c \<and> c \<noteq> CHR ''+'') \<and> CHR ''+'' \<notin> set post \<and>
           7 \<le> length (filter is_digit post) \<and> length (filter is_digit post) \<le> 15))
   \<and> (is_digit k \<or> k = CHR ''+'' \<longrightarrow>
        \<not> phone_number_validator (phone_number_set (a @ k # b @ CHR ''+'' # rest)))"
proof (intro conjI)
  have keep: "(\<lambda>c. is_digit c \<or> c = CHR ''+'') = (\<lambda>c. c \<in> set ''0123456789+'')"
    by (auto simp: is_digit_def fun_eq_iff)
  show "phone_number_set v = filter (\<lambda>c. c \<in> set ''0123456789+'') v"
    by (simp only: phone_number_set_def keep)
  show "phone_number_set (c # v) =
       (if c \<in> set ''0123456789+'' then c # phone_number_set v else phone_number_set v)"
    by (simp only: phone_number_set_def keep filter.simps)
  show "phone_number_set (v @ w) = phone_number_set v @ phone_number_set w"
    by (simp add: phone_number_set_def)
  show "set (phone_number_set v) = {c \<in> set v. is_digit c \<or> c = CHR ''+''}"
    by (auto simp: phone_number_set_def)
  show "count_list (phone_number_set v) CHR ''+'' = count_list v CHR ''+''"
    by (induction v) (auto simp: phone_number_set_def)
  show "filter is_digit (phone_number_set v) = filter is_digit v"
    by (induction v) (auto simp: phone_number_set_def)
  show "(\<forall>c\<in>set v. is_digit c \<or> c = CHR ''+'') \<longrightarrow> phone_number_set v = v"
    by (simp add: phone_number_set_def)
  show "phone_number_validator (phone_number_set v) \<longleftrightarrow>
        (\<exists>ds. phone_number_set v = CHR ''+'' # ds \<and> list_all is_digit ds \<and>
              7 \<le> length ds \<and> length ds \<le> 15)"
    by (rule phone_number_validator_iff)
  show "phone_number_validator (phone_number_set v) \<longleftrightarrow>
        (\<exists>pre post. v = pre @ CHR ''+'' # post \<and>
           (\<forall>c\<in>set pre. \<not> is_digit c \<and> c \<noteq> CHR ''+'') \<and> CHR ''+'' \<notin> set post \<and>
           7 \<le> length (filter is_digit post) \<and> length (filter is_digit post) \<le> 15)"
    by (rule phone_number_accepted_raw)
  show "is_digit k \<or> k = CHR ''+'' \<longrightarrow>
        \<not> phone_number_validator (phone_number_set (a @ k # b @ CHR ''+'' # rest))"
    using inner_plus_refused [of k a b rest] by blast
qed

text \<open>
  A formatted number is normalised and accepted; a value of digits and plus signs is kept
  whole; in \<open>"1 (555) +1234567"\<close> the plus sign stays behind the digits \<open>1555\<close> and
  the value is refused.
\<close>

theorem phone_number_set_keeps_every_plus_witness:
  "phone_number_set ''+1 (555) 123-4567'' = ''+15551234567''
   \<and> phone_number_validator (phone_number_set ''+1 (555) 123-4567'')
   \<and> phone_number_set ''+1+5551234567'' = ''+1+5551234567''
   \<and> phone_number_set ''1 (555) +1234567'' = ''1555+1234567''
   \<and> \<not> phone_number_validator (phone_number_set ''1 (555) +1234567'')"
proof -
  note exact = phone_number_set_keeps_every_plus [THEN conjunct1]
  note accepted = phone_number_set_keeps_every_plus
    [THEN conjunct2, THEN conjunct2, THEN conjunct2, THEN conjunct2, THEN conjunct2,
     THEN conjunct2, THEN conjunct2, THEN conjunct1]
  note refused = phone_number_set_keeps_every_plus
    [THEN conjunct2, THEN conjunct2, THEN conjunct2, THEN conjunct2, THEN conjunct2,
     THEN conjunct2, THEN conjunct2, THEN conjunct2, THEN conjunct2]
  have a: "phone_number_set ''+1 (555) 123-4567'' = ''+15551234567''"
    by (simp add: exact)
  have b: "phone_number_validator (phone_number_set ''+1 (555) 123-4567'')"
    using accepted [of "''+1 (555) 123-4567''"] by (simp add: a is_digit_def)
  have c: "phone_number_set ''+1+5551234567'' = ''+1+5551234567''"
    by (simp add: exact)
  have d: "phone_number_set ''1 (555) +1234567'' = ''1555+1234567''"
    by (simp add: exact)
  have "\<not> phone_number_validator (phone_number_set ([] @ CHR ''1'' # '' (555) '' @ CHR ''+'' # ''1234567''))"
    using refused [of "CHR ''1''" "[]" "'' (555) ''" "''1234567''"] by (simp add: is_digit_def)
  then have e: "\<not> phone_number_validator (phone_number_set ''1 (555) +1234567'')"
    by simp
  from a b c d e show ?thesis by simp
qed

text \<open>
  Against C8 as stated: the plus sign in third position of \<open>"+1+5551234567"\<close> is not
  stripped, and the normalised value is refused.
\<close>

theorem phone_number_inner_plus_counterexample:
  "phone_number_set ''+1+5551234567'' = ''+1+5551234567''
   \<and> CHR ''+'' \<in> set (tl (phone_number_set ''+1+5551234567''))
   \<and> \<not> phone_number_validator (phone_number_set ''+1+5551234567'')"
  by (simp add: phone_number_set_def phone_number_validator_def is_digit_def)

end
